theory Spec2Isabelle
  imports Complex_Main "HOL-Library.Char_ord" "HOL-Library.List_Lexorder"
    "HOL-Library.Product_Lexorder" "HOL-Library.Multiset"
begin

section \<open>Tables\<close>

text \<open>
  The dashboard (\<^verbatim>\<open>interactive_dashboard.py\<close>) works on one pandas table. A cell is
  missing (NaN, NaT, None), a number, a text or a date. A Python \<^verbatim>\<open>str\<close> is a sequence of
  Unicode code points and is kept as such: the list of its code points. Column names are
  ASCII and are written as HOL strings. Numbers are reals: rounding of floating point is
  outside this development.
\<close>

type_synonym ustr = "nat list"

datatype cell = Null | Num real | Str ustr | Dt int nat nat

type_synonym row = "string \<Rightarrow> cell"

record dataframe =
  columns :: "string list"
  rows :: "row list"

datatype py_error = KeyError string | TypeError | ValueError | IndexError | AttributeError | IOError

text \<open>\<^verbatim>\<open>df[c]\<close>: the column, or KeyError when the table has no such column.\<close>

definition getitem :: "dataframe \<Rightarrow> string \<Rightarrow> py_error + cell list" where
  "getitem df c =
     (if c \<in> set (columns df) then Inr (map (\<lambda>r. r c) (rows df)) else Inl (KeyError c))"

text \<open>
  \<^verbatim>\<open>df[c] = values\<close>: replaces the column in place, or appends a new one. The values
  are always computed from columns of the same table, one per row.
\<close>

definition setitem :: "dataframe \<Rightarrow> string \<Rightarrow> cell list \<Rightarrow> dataframe" where
  "setitem df c vs =
     \<lparr>columns = (if c \<in> set (columns df) then columns df else columns df @ [c]),
      rows = map (\<lambda>(r, v). r(c := v)) (zip (rows df) vs)\<rparr>"

text \<open>\<^verbatim>\<open>s.fillna(other)\<close> with a series, and with a scalar.\<close>

definition fillna_series :: "cell list \<Rightarrow> cell list \<Rightarrow> cell list" where
  "fillna_series s other = map (\<lambda>(a, b). if a = Null then b else a) (zip s other)"

definition fillna :: "cell list \<Rightarrow> cell \<Rightarrow> cell list" where
  "fillna s v = map (\<lambda>a. if a = Null then v else a) s"

text \<open>\<^verbatim>\<open>s.map(d)\<close> with a dict: a value that is not a key becomes missing.\<close>

definition map_dict :: "(ustr \<times> ustr) list \<Rightarrow> cell \<Rightarrow> cell" where
  "map_dict d c =
     (case c of
        Str s \<Rightarrow> (case map_of d s of Some v \<Rightarrow> Str v | None \<Rightarrow> Null)
      | _ \<Rightarrow> Null)"

text \<open>\<^verbatim>\<open>next((c for c in candidates if c in df.columns), None)\<close>\<close>

definition first_present :: "string list \<Rightarrow> dataframe \<Rightarrow> string option" where
  "first_present candidates df = find (\<lambda>c. c \<in> set (columns df)) candidates"

section \<open>The region lookup\<close>

text \<open>
  The seven region names and the fallback, as code points: Huabei (north), Dongbei
  (north-east), Huadong (east), Huazhong (central), Huanan (south), Xinan (south-west),
  Xibei (north-west), and Qita ("other").
\<close>

definition huabei :: ustr where "huabei = [0x534E, 0x5317]"
definition dongbei :: ustr where "dongbei = [0x4E1C, 0x5317]"
definition huadong :: ustr where "huadong = [0x534E, 0x4E1C]"
definition huazhong :: ustr where "huazhong = [0x534E, 0x4E2D]"
definition huanan :: ustr where "huanan = [0x534E, 0x5357]"
definition xinan :: ustr where "xinan = [0x897F, 0x5357]"
definition xibei :: ustr where "xibei = [0x897F, 0x5317]"
definition qita :: ustr where "qita = [0x5176, 0x4ED6]"

text \<open>
  \<^verbatim>\<open>REGION_MAPPING\<close>, entry by entry in the order of the source: Beijing, Tianjin, Hebei,
  Shanxi, Inner Mongolia; Liaoning, Jilin, Heilongjiang; Shanghai, Jiangsu, Zhejiang, Anhui,
  Fujian, Jiangxi, Shandong; Henan, Hubei, Hunan; Guangdong, Guangxi, Hainan; Chongqing,
  Sichuan, Guizhou, Yunnan, Tibet; Shaanxi, Gansu, Qinghai, Ningxia, Xinjiang.
\<close>

definition REGION_MAPPING :: "(ustr \<times> ustr) list" where
  "REGION_MAPPING =
  [([0x5317, 0x4EAC], huabei),
   ([0x5929, 0x6D25], huabei),
   ([0x6CB3, 0x5317, 0x7701], huabei),
   ([0x5C71, 0x897F, 0x7701], huabei),
   ([0x5185, 0x8499, 0x53E4, 0x81EA, 0x6CBB, 0x533A], huabei),
   ([0x8FBD, 0x5B81, 0x7701], dongbei),
   ([0x5409, 0x6797, 0x7701], dongbei),
   ([0x9ED1, 0x9F99, 0x6C5F, 0x7701], dongbei),
   ([0x4E0A, 0x6D77], huadong),
   ([0x6C5F, 0x82CF, 0x7701], huadong),
   ([0x6D59, 0x6C5F, 0x7701], huadong),
   ([0x5B89, 0x5FBD, 0x7701], huadong),
   ([0x798F, 0x5EFA, 0x7701], huadong),
   ([0x6C5F, 0x897F, 0x7701], huadong),
   ([0x5C71, 0x4E1C, 0x7701], huadong),
   ([0x6CB3, 0x5357, 0x7701], huazhong),
   ([0x6E56, 0x5317, 0x7701], huazhong),
   ([0x6E56, 0x5357, 0x7701], huazhong),
   ([0x5E7F, 0x4E1C, 0x7701], huanan),
   ([0x5E7F, 0x897F, 0x58EE, 0x65CF, 0x81EA, 0x6CBB, 0x533A], huanan),
   ([0x6D77, 0x5357, 0x7701], huanan),
   ([0x91CD, 0x5E86], xinan),
   ([0x56DB, 0x5DDD, 0x7701], xinan),
   ([0x8D35, 0x5DDE, 0x7701], xinan),
   ([0x4E91, 0x5357, 0x7701], xinan),
   ([0x897F, 0x85CF, 0x81EA, 0x6CBB, 0x533A], xinan),
   ([0x9655, 0x897F, 0x7701], xibei),
   ([0x7518, 0x8083, 0x7701], xibei),
   ([0x9752, 0x6D77, 0x7701], xibei),
   ([0x5B81, 0x590F, 0x56DE, 0x65CF, 0x81EA, 0x6CBB, 0x533A], xibei),
   ([0x65B0, 0x7586, 0x7EF4, 0x543E, 0x5C14, 0x81EA, 0x6CBB, 0x533A], xibei)]"

text \<open>
  Three provincial-level units that the table does not list: Taiwan province, and the
  special administrative regions of Hong Kong and Macau.
\<close>

definition taiwan :: ustr where "taiwan = [0x53F0, 0x6E7E, 0x7701]"
definition hongkong :: ustr where
  "hongkong = [0x9999, 0x6E2F, 0x7279, 0x522B, 0x884C, 0x653F, 0x533A]"
definition macau :: ustr where
  "macau = [0x6FB3, 0x95E8, 0x7279, 0x522B, 0x884C, 0x653F, 0x533A]"

section \<open>Figures\<close>

text \<open>
  What a chart function gives is one of three things: an exception, \<^verbatim>\<open>None\<close> after a
  warning (the chart has too little data to draw), or a figure. A figure is kept as the
  geometry that was drawn: each plotting call is one artist. Colours, fonts, titles and
  grid lines are left out; a text carries the value it prints, not its formatting.
\<close>

datatype artist =
    Rect real real real real real
  | Bars cell "(real \<times> real) list" real
  | BarsH "(cell \<times> real) list"
  | Line "(real \<times> real) list" bool
  | Scatter "(real \<times> real) list"
  | Text real real cell
  | Caption cell "real option"

text \<open>
  \<^item> \<open>Rect x y w h c\<close>: \<^verbatim>\<open>Rectangle((x, y), w, h)\<close> filled with the colour map at \<open>c\<close>;
  \<^item> \<open>Bars label pts width\<close>: one call of \<^verbatim>\<open>ax.bar\<close>, a bar of the given width at each
    position of \<open>pts\<close> with its height (on polar axes: angle and radius);
  \<^item> \<open>BarsH pts\<close>: one call of \<^verbatim>\<open>ax.barh\<close>, a bar per category with its length;
  \<^item> \<open>Line pts markers\<close>: one call of \<^verbatim>\<open>ax.plot\<close>, the points joined by straight segments
    in order, with or without a marker at each;
  \<^item> \<open>Scatter pts\<close>: one call of \<^verbatim>\<open>ax.scatter\<close>;
  \<^item> \<open>Text x y v\<close>: \<^verbatim>\<open>ax.text\<close> printing \<open>v\<close> at a position;
  \<^item> \<open>Caption region share\<close>: the line naming the leading region and its share in percent
    (no share when the total is zero: the source prints NaN or infinity).
\<close>

record figure =
  artists :: "artist list"
  ticks :: "real list"
  ticklabels :: "cell list"

type_synonym outcome = "py_error + figure option"

text \<open>The five charts; the product ranking has the number of products to show.\<close>

datatype chart = RegionalBars | TopProducts nat | MonthlyTrend | QuarterlyComparison | RoseChart

section \<open>Loading and normalising: \<^verbatim>\<open>load_data\<close>\<close>

text \<open>
  What \<^verbatim>\<open>load_data\<close> takes from pandas is a parameter of the model: how a cell parses
  as a date (\<^verbatim>\<open>pd.to_datetime\<close>), and the product of two cells
  (\<^verbatim>\<open>df['quantity'] * df['unit_price']\<close>), which may raise. The charts take two more
  from their libraries. One is the spline of scipy, used by the trend chart. The other is
  what pandas and matplotlib make of a chart whose value column is an object column, one
  that holds a text or a date among the rows that are summed: pandas then adds by
  concatenation and matplotlib may draw the result on a categorical axis, convert it, or
  raise. That outcome is not worked out here; it is the parameter \<open>object_chart\<close>, given
  the chart and what the chart reads of the view: for each row its key cells and its value
  cell.
\<close>

record library =
  parse_date :: "cell \<Rightarrow> (int \<times> nat \<times> nat) option"
  cell_mul :: "cell \<Rightarrow> cell \<Rightarrow> py_error + cell"
  make_interp_spline :: "nat \<Rightarrow> real list \<Rightarrow> real list \<Rightarrow> real \<Rightarrow> real"
  object_chart :: "chart \<Rightarrow> (cell list \<times> cell) list \<Rightarrow> outcome"

text \<open>\<^verbatim>\<open>pd.to_datetime(s, errors='coerce')\<close>: a value that does not parse becomes NaT.\<close>

definition to_datetime :: "library \<Rightarrow> cell \<Rightarrow> cell" where
  "to_datetime lib c = (case parse_date lib c of Some (y, m, d) \<Rightarrow> Dt y m d | None \<Rightarrow> Null)"

definition dt_year :: "cell \<Rightarrow> cell" where
  "dt_year c = (case c of Dt y m d \<Rightarrow> Num (of_int y) | _ \<Rightarrow> Null)"

definition dt_month :: "cell \<Rightarrow> cell" where
  "dt_month c = (case c of Dt y m d \<Rightarrow> Num (of_nat m) | _ \<Rightarrow> Null)"

definition dt_quarter :: "cell \<Rightarrow> cell" where
  "dt_quarter c = (case c of Dt y m d \<Rightarrow> Num (of_nat ((m - 1) div 3 + 1)) | _ \<Rightarrow> Null)"

text \<open>The product of two columns, cell by cell; the first cell that raises ends it.\<close>

fun series_mul :: "library \<Rightarrow> cell list \<Rightarrow> cell list \<Rightarrow> py_error + cell list" where
  "series_mul lib (a # as) (b # bs) =
     (case cell_mul lib a b of
        Inl e \<Rightarrow> Inl e
      | Inr c \<Rightarrow> (case series_mul lib as bs of Inl e \<Rightarrow> Inl e | Inr cs \<Rightarrow> Inr (c # cs)))"
| "series_mul lib _ _ = Inr []"

definition date_candidates :: "string list" where
  "date_candidates = [''payment_date'', ''order_date'', ''create_time'', ''created_at'', ''date'']"

definition amount_candidates :: "string list" where
  "amount_candidates = [''paid_amount'', ''product_amount'', ''amount'', ''total_amount'']"

text \<open>Lines 38 to 43: the region column.\<close>

definition resolve_region :: "dataframe \<Rightarrow> py_error + dataframe" where
  "resolve_region df =
     (let province = map (\<lambda>r. map_dict REGION_MAPPING (r ''province'')) (rows df);
          df1 = (if ''province'' \<in> set (columns df) then
                   (if ''region'' \<in> set (columns df) then
                      setitem df ''region''
                        (fillna_series (map (\<lambda>r. r ''region'') (rows df)) province)
                    else setitem df ''region'' province)
                 else df)
      in case getitem df1 ''region'' of
           Inl e \<Rightarrow> Inl e
         | Inr region \<Rightarrow> Inr (setitem df1 ''region'' (fillna region (Str qita))))"

text \<open>Lines 46 to 49: every candidate date column that is present is parsed.\<close>

definition parse_column :: "library \<Rightarrow> dataframe \<Rightarrow> string \<Rightarrow> dataframe" where
  "parse_column lib df col =
     (if col \<in> set (columns df) then
        setitem df col (map (\<lambda>r. to_datetime lib (r col)) (rows df))
      else df)"

definition parse_dates :: "library \<Rightarrow> dataframe \<Rightarrow> dataframe" where
  "parse_dates lib df = foldl (parse_column lib) df date_candidates"

text \<open>Lines 52 to 57: the primary date and the fields derived from it.\<close>

definition resolve_primary_date :: "dataframe \<Rightarrow> dataframe" where
  "resolve_primary_date df =
     (case first_present date_candidates df of
        None \<Rightarrow> df
      | Some primary_date \<Rightarrow>
          (let df1 = setitem df ''_primary_date'' (map (\<lambda>r. r primary_date) (rows df));
               df2 = setitem df1 ''year'' (map (\<lambda>r. dt_year (r ''_primary_date'')) (rows df1));
               df3 = setitem df2 ''month'' (map (\<lambda>r. dt_month (r ''_primary_date'')) (rows df2))
           in setitem df3 ''quarter'' (map (\<lambda>r. dt_quarter (r ''_primary_date'')) (rows df3))))"

text \<open>Lines 60 to 65: the amount.\<close>

definition resolve_amount :: "library \<Rightarrow> dataframe \<Rightarrow> py_error + dataframe" where
  "resolve_amount lib df =
     (case first_present amount_candidates df of
        None \<Rightarrow>
          (if {''quantity'', ''unit_price''} \<subseteq> set (columns df) then
             (case series_mul lib (map (\<lambda>r. r ''quantity'') (rows df))
                     (map (\<lambda>r. r ''unit_price'') (rows df)) of
                Inl e \<Rightarrow> Inl e
              | Inr vs \<Rightarrow> Inr (setitem df ''_amount'' vs))
           else Inr df)
      | Some amount_col \<Rightarrow> Inr (setitem df ''_amount'' (map (\<lambda>r. r amount_col) (rows df))))"

text \<open>Lines 68 and 69: the quantity.\<close>

definition resolve_quantity :: "dataframe \<Rightarrow> dataframe" where
  "resolve_quantity df =
     (if ''quantity'' \<in> set (columns df) then
        setitem df ''_quantity'' (map (\<lambda>r. r ''quantity'') (rows df))
      else df)"

text \<open>
  The body of the \<^verbatim>\<open>try\<close>. Its argument is what \<^verbatim>\<open>pd.read_excel\<close> gave: the raw table,
  or the exception it raised.
\<close>

definition load_data_body :: "library \<Rightarrow> py_error + dataframe \<Rightarrow> py_error + dataframe" where
  "load_data_body lib source =
     (case source of
        Inl e \<Rightarrow> Inl e
      | Inr df \<Rightarrow>
          (case resolve_region df of
             Inl e \<Rightarrow> Inl e
           | Inr df1 \<Rightarrow>
               (case resolve_amount lib (resolve_primary_date (parse_dates lib df1)) of
                  Inl e \<Rightarrow> Inl e
                | Inr df2 \<Rightarrow> Inr (resolve_quantity df2))))"

text \<open>
  \<^verbatim>\<open>load_data\<close>: any exception of the body is reported with \<^verbatim>\<open>st.error\<close> and the
  result is \<^verbatim>\<open>None\<close>, the load error that stops \<^verbatim>\<open>main\<close>.
\<close>

definition load_data :: "library \<Rightarrow> py_error + dataframe \<Rightarrow> dataframe option" where
  "load_data lib source =
     (case load_data_body lib source of Inl e \<Rightarrow> None | Inr df \<Rightarrow> Some df)"


section \<open>Sorting and distinct values\<close>

text \<open>
  \<^verbatim>\<open>s.dropna().unique()\<close> and \<^verbatim>\<open>s.unique()\<close>: the distinct values. The source sorts
  them before any use, so the order in which they are listed here does not show.
\<close>

definition dropna :: "cell list \<Rightarrow> cell list" where
  "dropna cs = filter (\<lambda>c. c \<noteq> Null) cs"

definition unique :: "cell list \<Rightarrow> cell list" where
  "unique cs = remdups cs"

text \<open>
  Python compares numbers with numbers (NaN is a float), texts with texts and dates with
  dates; \<^verbatim>\<open>sorted\<close> raises TypeError on a list that mixes them. Texts compare by code
  points. Where NaN stands in a list of numbers Python's order is not determined; here a
  missing value sorts first.
\<close>

definition kind :: "cell \<Rightarrow> nat" where
  "kind c = (case c of Null \<Rightarrow> 0 | Num x \<Rightarrow> 0 | Str s \<Rightarrow> 1 | Dt y m d \<Rightarrow> 2)"

definition cell_key :: "cell \<Rightarrow> nat \<times> real \<times> ustr" where
  "cell_key c =
     (case c of
        Null \<Rightarrow> (0, 0, [])
      | Num x \<Rightarrow> (1, x, [])
      | Str s \<Rightarrow> (2, 0, s)
      | Dt y m d \<Rightarrow> (3, of_int y * 372 + of_nat m * 31 + of_nat d, []))"

definition py_sorted :: "cell list \<Rightarrow> py_error + cell list" where
  "py_sorted xs =
     (case xs of
        [] \<Rightarrow> Inr []
      | x # _ \<Rightarrow> if list_all (\<lambda>y. kind y = kind x) xs then Inr (sort_key cell_key xs)
                 else Inl TypeError)"

section \<open>Filtering: \<^verbatim>\<open>sidebar_filters\<close>\<close>

text \<open>
  The three \<^verbatim>\<open>st.sidebar.multiselect\<close> widgets are the user: given the widget, its options
  and its default, the user answers with a selection. On first display the answer is the
  default.
\<close>

datatype widget = SelectYears | SelectRegions | SelectProducts

type_synonym multiselect = "widget \<Rightarrow> cell list \<Rightarrow> cell list \<Rightarrow> cell list"

definition keep_default :: multiselect where
  "keep_default w opts dflt = dflt"

text \<open>Lines 81 to 89. \<^verbatim>\<open>None\<close> when the table has no year.\<close>

definition select_years :: "multiselect \<Rightarrow> dataframe \<Rightarrow> py_error + cell list option" where
  "select_years ui df =
     (if ''year'' \<in> set (columns df) then
        (case py_sorted (unique (dropna (map (\<lambda>r. r ''year'') (rows df)))) of
           Inl e \<Rightarrow> Inl e
         | Inr years \<Rightarrow> Inr (Some (ui SelectYears years years)))
      else Inr None)"

text \<open>Lines 92 to 97. The region column is read without a guard.\<close>

definition select_regions :: "multiselect \<Rightarrow> dataframe \<Rightarrow> py_error + cell list option" where
  "select_regions ui df =
     (case getitem df ''region'' of
        Inl e \<Rightarrow> Inl e
      | Inr region \<Rightarrow>
          (case py_sorted (unique region) of
             Inl e \<Rightarrow> Inl e
           | Inr regions \<Rightarrow> Inr (Some (ui SelectRegions regions regions))))"

text \<open>Lines 100 to 111.\<close>

definition select_products :: "multiselect \<Rightarrow> dataframe \<Rightarrow> py_error + cell list option" where
  "select_products ui df =
     (if ''product_name'' \<in> set (columns df) then
        (case py_sorted (unique (dropna (map (\<lambda>r. r ''product_name'') (rows df)))) of
           Inl e \<Rightarrow> Inl e
         | Inr products \<Rightarrow>
             if length products \<le> 50 then
               Inr (Some (ui SelectProducts products
                           (if length products > 10 then take 10 products else products)))
             else Inr None)
      else Inr None)"

text \<open>
  \<^verbatim>\<open>if selected: filtered_df = filtered_df[filtered_df[c].isin(selected)]\<close>: a selection
  that is \<^verbatim>\<open>None\<close> or empty is false in Python and restricts nothing.
\<close>

definition isin_filter :: "string \<Rightarrow> cell list option \<Rightarrow> dataframe \<Rightarrow> dataframe" where
  "isin_filter c selected df =
     (case selected of
        None \<Rightarrow> df
      | Some vs \<Rightarrow> if vs = [] then df else df\<lparr>rows := filter (\<lambda>r. r c \<in> set vs) (rows df)\<rparr>)"

text \<open>Lines 113 to 121.\<close>

definition apply_filters ::
  "cell list option \<Rightarrow> cell list option \<Rightarrow> cell list option \<Rightarrow> dataframe \<Rightarrow> dataframe" where
  "apply_filters selected_years selected_regions selected_products df =
     isin_filter ''product_name'' selected_products
       (isin_filter ''region'' selected_regions
         (isin_filter ''year'' selected_years df))"

definition sidebar_filters :: "multiselect \<Rightarrow> dataframe \<Rightarrow> py_error + dataframe" where
  "sidebar_filters ui df =
     (case select_years ui df of
        Inl e \<Rightarrow> Inl e
      | Inr selected_years \<Rightarrow>
          (case select_regions ui df of
             Inl e \<Rightarrow> Inl e
           | Inr selected_regions \<Rightarrow>
               (case select_products ui df of
                  Inl e \<Rightarrow> Inl e
                | Inr selected_products \<Rightarrow>
                    Inr (apply_filters selected_years selected_regions selected_products df))))"

section \<open>Aggregation\<close>

text \<open>
  \<^verbatim>\<open>sum\<close> of a group of numbers skips the missing ones. The sum of a group that holds a
  text or a date is not a number (pandas adds the values of an object column by
  concatenation): it is \<open>None\<close> here.
\<close>

definition is_numeric :: "cell \<Rightarrow> bool" where
  "is_numeric c = (case c of Null \<Rightarrow> True | Num x \<Rightarrow> True | _ \<Rightarrow> False)"

text \<open>The number in a cell that is a number or missing.\<close>

definition cell_num :: "cell \<Rightarrow> real" where
  "cell_num c = (case c of Num x \<Rightarrow> x | _ \<Rightarrow> 0)"

definition series_sum :: "cell list \<Rightarrow> real option" where
  "series_sum cs = (if list_all is_numeric cs then Some (sum_list (map cell_num cs)) else None)"

text \<open>
  An aggregate is an exception, or the aggregate of an object column, or a table of
  numbers: one row per group, the key and the sum of the value column over the group.
\<close>

datatype 'a aggregate = Raises py_error | ObjectColumn | Table 'a

definition sum_groups ::
  "(row \<Rightarrow> 'k) \<Rightarrow> 'k list \<Rightarrow> string \<Rightarrow> row list \<Rightarrow> ('k \<times> real) list aggregate" where
  "sum_groups keyf ks value_col rs =
     (case those (map (\<lambda>k. map_option (\<lambda>s. (k, s))
                          (series_sum (map (\<lambda>r. r value_col) (filter (\<lambda>r. keyf r = k) rs)))) ks) of
        None \<Rightarrow> ObjectColumn
      | Some t \<Rightarrow> Table t)"

text \<open>
  \<^verbatim>\<open>df.groupby(key, as_index=False)[value_col].sum()\<close>: the groups are the distinct keys
  that are not missing, in sorted order.
\<close>

definition group_keys :: "string \<Rightarrow> dataframe \<Rightarrow> cell list" where
  "group_keys key df = sort_key cell_key (unique (dropna (map (\<lambda>r. r key) (rows df))))"

definition groupby_sum :: "dataframe \<Rightarrow> string \<Rightarrow> string \<Rightarrow> (cell \<times> real) list aggregate" where
  "groupby_sum df key value_col =
     (if key \<notin> set (columns df) then Raises (KeyError key)
      else if value_col \<notin> set (columns df) then Raises (KeyError value_col)
      else sum_groups (\<lambda>r. r key) (group_keys key df) value_col (rows df))"

text \<open>\<^verbatim>\<open>df.groupby([key1, key2], as_index=False)[value_col].sum()\<close>\<close>

definition group_keys2 :: "string \<Rightarrow> string \<Rightarrow> dataframe \<Rightarrow> (cell \<times> cell) list" where
  "group_keys2 key1 key2 df =
     sort_key (\<lambda>(a, b). (cell_key a, cell_key b))
       (remdups (filter (\<lambda>(a, b). a \<noteq> Null \<and> b \<noteq> Null)
          (map (\<lambda>r. (r key1, r key2)) (rows df))))"

definition groupby_sum2 ::
  "dataframe \<Rightarrow> string \<Rightarrow> string \<Rightarrow> string \<Rightarrow> ((cell \<times> cell) \<times> real) list aggregate" where
  "groupby_sum2 df key1 key2 value_col =
     (if key1 \<notin> set (columns df) then Raises (KeyError key1)
      else if key2 \<notin> set (columns df) then Raises (KeyError key2)
      else if value_col \<notin> set (columns df) then Raises (KeyError value_col)
      else sum_groups (\<lambda>r. (r key1, r key2)) (group_keys2 key1 key2 df) value_col (rows df))"

text \<open>A step on the table of an aggregate, such as sorting it or taking its head.\<close>

definition map_table :: "('a \<Rightarrow> 'b) \<Rightarrow> 'a aggregate \<Rightarrow> 'b aggregate" where
  "map_table f a = (case a of Raises e \<Rightarrow> Raises e | ObjectColumn \<Rightarrow> ObjectColumn
                    | Table t \<Rightarrow> Table (f t))"

text \<open>What a chart reads of a view: for each row the cells of the key columns and the value cell.\<close>

definition chart_input :: "string list \<Rightarrow> string \<Rightarrow> row list \<Rightarrow> (cell list \<times> cell) list" where
  "chart_input keys value_col rs = map (\<lambda>r. (map r keys, r value_col)) rs"

text \<open>
  \<^verbatim>\<open>sort_values(value, ascending=False)\<close>. Among equal values the order of pandas is not
  specified; here they keep the order of the groups.
\<close>

definition sort_values_desc :: "('k \<times> real) list \<Rightarrow> ('k \<times> real) list" where
  "sort_values_desc g = sort_key (\<lambda>p. - snd p) g"

text \<open>Python's \<^verbatim>\<open>max\<close> of a list raises ValueError on an empty one; \<^verbatim>\<open>int\<close> truncates.\<close>

fun py_max :: "real list \<Rightarrow> py_error + real" where
  "py_max [] = Inl ValueError"
| "py_max (x # xs) = Inr (foldl max x xs)"

definition py_int :: "real \<Rightarrow> int" where
  "py_int x = (if 0 \<le> x then \<lfloor>x\<rfloor> else \<lceil>x\<rceil>)"

text \<open>
  \<^verbatim>\<open>np.linspace(lo, hi, num)\<close>, and the same with \<^verbatim>\<open>endpoint=False\<close>.
\<close>

definition linspace :: "real \<Rightarrow> real \<Rightarrow> nat \<Rightarrow> real list" where
  "linspace lo hi num = map (\<lambda>k. lo + real k * ((hi - lo) / real (num - 1))) [0..<num]"

definition linspace_open :: "real \<Rightarrow> real \<Rightarrow> nat \<Rightarrow> real list" where
  "linspace_open lo hi num = map (\<lambda>k. lo + real k * ((hi - lo) / real num)) [0..<num]"

text \<open>\<^verbatim>\<open>xs[::step]\<close> for a step of at least one.\<close>

definition stride :: "nat \<Rightarrow> 'a list \<Rightarrow> 'a list" where
  "stride step xs = map (\<lambda>i. xs ! (i * step)) [0..<(length xs + step - 1) div step]"

section \<open>Charts\<close>

subsection \<open>\<^verbatim>\<open>plot_regional_gradient_bars\<close>\<close>

text \<open>Lines 129 to 133 (the count of orders per region is computed and never used).\<close>

definition region_stats :: "dataframe \<Rightarrow> (cell \<times> real) list aggregate" where
  "region_stats df =
     (let qty_col = (if ''_quantity'' \<in> set (columns df) then ''_quantity'' else ''_amount'')
      in map_table sort_values_desc (groupby_sum df ''region'' qty_col))"

text \<open>Lines 143 to 152, one pass of the loop: a bar of 100 layers and its label.\<close>

definition gradient_bar :: "real \<Rightarrow> nat \<Rightarrow> real \<Rightarrow> artist list" where
  "gradient_bar peak i qty =
     map (\<lambda>ratio. Rect (real i - 0.45 / 2) (ratio * qty) 0.45 (qty / 100) (0.4 + ratio * 0.55))
       (linspace_open 0 1 100)
     @ [Text (real i) (qty + peak * 0.02) (Num (of_int (py_int qty)))]"

text \<open>
  The loop makes no pass over an empty list; \<^verbatim>\<open>max(quantities)\<close> of line 157 then raises.
\<close>

definition plot_regional_gradient_bars :: "library \<Rightarrow> dataframe \<Rightarrow> outcome" where
  "plot_regional_gradient_bars lib df =
     (let qty_col = (if ''_quantity'' \<in> set (columns df) then ''_quantity'' else ''_amount'')
      in case region_stats df of
           Raises e \<Rightarrow> Inl e
         | ObjectColumn \<Rightarrow>
             object_chart lib RegionalBars (chart_input [''region''] qty_col (rows df))
         | Table stats \<Rightarrow>
             (let regions = map fst stats; quantities = map snd stats
              in case py_max quantities of
                   Inl e \<Rightarrow> Inl e
                 | Inr peak \<Rightarrow>
                     (case stats of
                        [] \<Rightarrow> Inl IndexError
                      | (top_region, top_quantity) # _ \<Rightarrow>
                          (let total_qty = sum_list quantities;
                               percentage = (if total_qty = 0 then None
                                             else Some (top_quantity / total_qty * 100))
                           in Inr (Some
                                \<lparr>artists = concat (map (\<lambda>(i, qty). gradient_bar peak i qty)
                                                      (enumerate 0 quantities))
                                            @ [Caption top_region percentage],
                                 ticks = map real [0..<length regions],
                                 ticklabels = regions\<rparr>)))))"

subsection \<open>\<^verbatim>\<open>plot_top_products\<close>\<close>

text \<open>Lines 182 and 189 to 191.\<close>

definition top_products :: "dataframe \<Rightarrow> string \<Rightarrow> nat \<Rightarrow> (cell \<times> real) list aggregate" where
  "top_products df product_col n =
     (let value_col = (if ''_quantity'' \<in> set (columns df) then ''_quantity'' else ''_amount'')
      in map_table (\<lambda>g. take n (sort_values_desc g)) (groupby_sum df product_col value_col))"

text \<open>
  The labels are written in a loop over the bars, where \<^verbatim>\<open>max(values)\<close> is read: with no
  bar there is no pass and no label.
\<close>

definition plot_top_products :: "library \<Rightarrow> dataframe \<Rightarrow> nat \<Rightarrow> outcome" where
  "plot_top_products lib df n =
     (let value_col = (if ''_quantity'' \<in> set (columns df) then ''_quantity'' else ''_amount'');
          product_col = (if ''product_name'' \<in> set (columns df) then ''product_name''
                         else ''category'')
      in if product_col \<notin> set (columns df) then Inr None
         else (case top_products df product_col n of
                 Raises e \<Rightarrow> Inl e
               | ObjectColumn \<Rightarrow>
                   object_chart lib (TopProducts n) (chart_input [product_col] value_col (rows df))
               | Table top_rows \<Rightarrow>
                   (let products = map fst top_rows; values = map snd top_rows
                    in Inr (Some
                         \<lparr>artists = BarsH (zip products values)
                                     # (case py_max values of
                                          Inl e \<Rightarrow> []
                                        | Inr top_value \<Rightarrow>
                                            map (\<lambda>(i, val). Text (val + top_value * 0.01) (real i) (Num val))
                                              (enumerate 0 values)),
                          ticks = map real [0..<length products],
                          ticklabels = products\<rparr>))))"

subsection \<open>\<^verbatim>\<open>plot_monthly_trend\<close>\<close>

definition year_month :: "cell \<Rightarrow> int \<times> nat" where
  "year_month c = (case c of Dt y m d \<Rightarrow> (y, m) | _ \<Rightarrow> (0, 0))"

definition is_date :: "cell \<Rightarrow> bool" where
  "is_date c = (case c of Dt y m d \<Rightarrow> True | _ \<Rightarrow> False)"

text \<open>Line 226: the rows that have a primary date.\<close>

definition dated_rows :: "dataframe \<Rightarrow> row list" where
  "dated_rows df = filter (\<lambda>r. r ''_primary_date'' \<noteq> Null) (rows df)"

text \<open>
  Lines 223 to 229: the rows with a date, bucketed by calendar month, in the order of the
  months. The \<^verbatim>\<open>.dt\<close> accessor raises AttributeError on values that are not dates.
\<close>

definition monthly_table :: "dataframe \<Rightarrow> ((int \<times> nat) \<times> real) list aggregate" where
  "monthly_table df =
     (let value_col = (if ''_amount'' \<in> set (columns df) then ''_amount'' else ''_quantity'');
          df_month = dated_rows df
      in if \<not> list_all (\<lambda>r. is_date (r ''_primary_date'')) df_month then Raises AttributeError
         else if value_col \<notin> set (columns df) then Raises (KeyError value_col)
         else sum_groups (\<lambda>r. year_month (r ''_primary_date''))
                (sort (remdups (map (\<lambda>r. year_month (r ''_primary_date'')) df_month)))
                value_col df_month)"

text \<open>
  Lines 215 to 217 and 231 to 255. \<open>x\<close> is \<^verbatim>\<open>np.arange(len(monthly))\<close>, whose least and
  greatest elements are 0 and \<open>n - 1\<close>.
\<close>

definition plot_monthly_trend :: "library \<Rightarrow> dataframe \<Rightarrow> outcome" where
  "plot_monthly_trend lib df =
     (if ''_primary_date'' \<notin> set (columns df) then Inr None
      else (case monthly_table df of
              Raises e \<Rightarrow> Inl e
            | ObjectColumn \<Rightarrow>
                object_chart lib MonthlyTrend
                  (chart_input [''_primary_date'']
                     (if ''_amount'' \<in> set (columns df) then ''_amount'' else ''_quantity'')
                     (dated_rows df))
            | Table monthly \<Rightarrow>
                if length monthly < 2 then Inr None
                else (let n = length monthly;
                          x = map real [0..<n];
                          y = map snd monthly;
                          curve = (if n > 3 then
                                     (let x_smooth = linspace 0 (real (n - 1)) 300;
                                          spl = make_interp_spline lib (min 3 (n - 1)) x y
                                      in Line (zip x_smooth (map spl x_smooth)) False)
                                   else Line (zip x y) True);
                          step = max 1 (n div 12)
                      in case py_max y of
                           Inl e \<Rightarrow> Inl e
                         | Inr peak \<Rightarrow>
                             Inr (Some
                               \<lparr>artists = [curve, Scatter (zip x y)]
                                           @ map (\<lambda>(xi, yi). Text xi (yi + peak * 0.03) (Num yi)) (zip x y),
                                ticks = stride step x,
                                ticklabels = stride step (map (\<lambda>((y, m), v). Dt y m 1) monthly)\<rparr>))))"

subsection \<open>\<^verbatim>\<open>plot_quarterly_comparison\<close>\<close>

text \<open>Lines 277 and 280.\<close>

definition quarterly_table :: "dataframe \<Rightarrow> ((cell \<times> cell) \<times> real) list aggregate" where
  "quarterly_table df =
     (let value_col = (if ''_amount'' \<in> set (columns df) then ''_amount'' else ''_quantity'')
      in groupby_sum2 df ''year'' ''quarter'' value_col)"

text \<open>Lines 292 to 295: the four values of one year, zero where the quarter has no row.\<close>

definition quarter_values :: "((cell \<times> cell) \<times> real) list \<Rightarrow> cell \<Rightarrow> real list" where
  "quarter_values quarterly year =
     (let year_data = filter (\<lambda>((y, q), v). y = year) quarterly
      in map (\<lambda>q. case filter (\<lambda>((y, q'), v). q' = Num (real q)) year_data of
                     [] \<Rightarrow> 0
                   | (k, v) # _ \<Rightarrow> v) [1..<5])"

text \<open>The tick labels Q1 to Q4.\<close>

definition quarter_labels :: "cell list" where
  "quarter_labels = map (\<lambda>i. Str [81, 48 + i]) [1..<5]"

text \<open>
  Lines 288 and 291 to 306, one pass of the loop over the years: the cluster of the four
  bars of a year, and a label over each bar that is above zero. \<open>n\<close> is the number of years.
\<close>

definition year_cluster :: "((cell \<times> cell) \<times> real) list \<Rightarrow> nat \<Rightarrow> nat \<Rightarrow> cell \<Rightarrow> artist list" where
  "year_cluster quarterly n i year =
     (let x = map real [0..<4];
          width = (if n > 1 then 0.8 / real n else 0.4);
          values = quarter_values quarterly year;
          offset = (if n > 1 then (real i - real n / 2 + 0.5) * width else 0)
      in Bars year (zip (map (\<lambda>xi. xi + offset) x) values) width
         # map (\<lambda>(xi, val). Text (xi + offset) val (Num val))
             (filter (\<lambda>(xi, val). val > 0) (zip x values)))"

definition plot_quarterly_comparison :: "library \<Rightarrow> dataframe \<Rightarrow> outcome" where
  "plot_quarterly_comparison lib df =
     (if ''quarter'' \<notin> set (columns df) \<or> ''year'' \<notin> set (columns df) then Inr None
      else (case quarterly_table df of
              Raises e \<Rightarrow> Inl e
            | ObjectColumn \<Rightarrow>
                object_chart lib QuarterlyComparison
                  (chart_input [''year'', ''quarter'']
                     (if ''_amount'' \<in> set (columns df) then ''_amount'' else ''_quantity'')
                     (rows df))
            | Table quarterly \<Rightarrow>
                (case py_sorted (unique (map (\<lambda>((y, q), v). y) quarterly)) of
                   Inl e \<Rightarrow> Inl e
                 | Inr years \<Rightarrow>
                     if length years = 0 then Inr None
                     else Inr (Some
                            \<lparr>artists = concat (map (\<lambda>(i, year).
                                                     year_cluster quarterly (length years) i year)
                                                 (enumerate 0 years)),
                             ticks = map real [0..<4],
                             ticklabels = quarter_labels\<rparr>))))"

subsection \<open>\<^verbatim>\<open>plot_rose_chart\<close>\<close>

text \<open>Lines 328 to 333.\<close>

definition rose_agg :: "dataframe \<Rightarrow> (cell \<times> real) list aggregate" where
  "rose_agg df =
     (let value_col = (if ''_quantity'' \<in> set (columns df) then ''_quantity'' else ''_amount'');
          category_col = (if ''category'' \<in> set (columns df) then ''category'' else ''region'')
      in map_table (\<lambda>g. take 12 (sort_values_desc g)) (groupby_sum df category_col value_col))"

text \<open>Lines 335 to 350. The labels are the categories, printed as text.\<close>

definition plot_rose_chart :: "library \<Rightarrow> dataframe \<Rightarrow> outcome" where
  "plot_rose_chart lib df =
     (case rose_agg df of
        Raises e \<Rightarrow> Inl e
      | ObjectColumn \<Rightarrow>
          object_chart lib RoseChart
            (chart_input [if ''category'' \<in> set (columns df) then ''category'' else ''region'']
               (if ''_quantity'' \<in> set (columns df) then ''_quantity'' else ''_amount'')
               (rows df))
      | Table agg \<Rightarrow>
          (let labels = map fst agg; values = map snd agg
           in if values = [] then Inr None
              else (let theta = linspace_open 0 (2 * pi) (length values);
                        width = 2 * pi / real (length values)
                    in Inr (Some
                         \<lparr>artists = [Bars Null (zip theta values) width],
                          ticks = theta,
                          ticklabels = labels\<rparr>))))"

section \<open>Concrete inputs\<close>

text \<open>
  A concrete library, for evaluating the definitions on examples: a date cell parses as
  itself, and the product is that of numbers, with a missing operand giving a missing
  result and any other operand a TypeError. Its spline is the constant zero and its charts
  of object columns raise TypeError: neither is used by what follows but as a name.
\<close>

definition demo_library :: library where
  "demo_library =
     \<lparr>parse_date = (\<lambda>c. case c of Dt y m d \<Rightarrow> Some (y, m, d) | _ \<Rightarrow> None),
      cell_mul = (\<lambda>a b. case a of
                     Num x \<Rightarrow> (case b of Num y \<Rightarrow> Inr (Num (x * y)) | Null \<Rightarrow> Inr Null
                                | _ \<Rightarrow> Inl TypeError)
                   | Null \<Rightarrow> (case b of Num y \<Rightarrow> Inr Null | Null \<Rightarrow> Inr Null
                                | _ \<Rightarrow> Inl TypeError)
                   | _ \<Rightarrow> Inl TypeError),
      make_interp_spline = (\<lambda>k xs ys t. 0),
      object_chart = (\<lambda>c input. Inl TypeError)\<rparr>"

definition mk_row :: "(string \<times> cell) list \<Rightarrow> row" where
  "mk_row kvs = (\<lambda>c. case map_of kvs c of Some v \<Rightarrow> v | None \<Rightarrow> Null)"

text \<open>A raw table with a province and a quantity, and no region: Guangdong, Taiwan.\<close>

definition raw_provinces :: dataframe where
  "raw_provinces =
     \<lparr>columns = [''province'', ''quantity''],
      rows = [mk_row [(''province'', Str [0x5E7F, 0x4E1C, 0x7701]), (''quantity'', Num 2)],
              mk_row [(''province'', Str taiwan), (''quantity'', Num 1)]]\<rparr>"

text \<open>A raw table with neither a region nor a province.\<close>

definition raw_no_location :: dataframe where
  "raw_no_location =
     \<lparr>columns = [''quantity'', ''unit_price''],
      rows = [mk_row [(''quantity'', Num 2), (''unit_price'', Num 10)]]\<rparr>"

text \<open>
  A raw table of two orders, one of 2023 in Beijing and one of 2024 in Guangdong, and the
  normalised table that \<^verbatim>\<open>load_data\<close> makes of it.
\<close>

definition raw_orders :: dataframe where
  "raw_orders =
     \<lparr>columns = [''province'', ''payment_date'', ''product_name'', ''quantity'', ''paid_amount''],
      rows = [mk_row [(''province'', Str [0x5317, 0x4EAC]), (''payment_date'', Dt 2023 2 10),
                      (''product_name'', Str [84]), (''quantity'', Num 2),
                      (''paid_amount'', Num 100)],
              mk_row [(''province'', Str [0x5E7F, 0x4E1C, 0x7701]), (''payment_date'', Dt 2024 5 3),
                      (''product_name'', Str [74]), (''quantity'', Num 1),
                      (''paid_amount'', Num 50)]]\<rparr>"

definition demo_columns :: "string list" where
  "demo_columns = [''province'', ''payment_date'', ''product_name'', ''quantity'', ''paid_amount'',
     ''region'', ''_primary_date'', ''year'', ''month'', ''quarter'', ''_amount'', ''_quantity'']"

definition demo_orders :: dataframe where
  "demo_orders =
     \<lparr>columns = demo_columns,
      rows = [mk_row [(''province'', Str [0x5317, 0x4EAC]), (''payment_date'', Dt 2023 2 10),
                      (''product_name'', Str [84]), (''quantity'', Num 2),
                      (''paid_amount'', Num 100),
                      (''region'', Str huabei), (''_primary_date'', Dt 2023 2 10),
                      (''year'', Num 2023), (''month'', Num 2), (''quarter'', Num 1),
                      (''_amount'', Num 100), (''_quantity'', Num 2)],
              mk_row [(''province'', Str [0x5E7F, 0x4E1C, 0x7701]), (''payment_date'', Dt 2024 5 3),
                      (''product_name'', Str [74]), (''quantity'', Num 1),
                      (''paid_amount'', Num 50),
                      (''region'', Str huanan), (''_primary_date'', Dt 2024 5 3),
                      (''year'', Num 2024), (''month'', Num 5), (''quarter'', Num 2),
                      (''_amount'', Num 50), (''_quantity'', Num 1)]]\<rparr>"

text \<open>A user who selects the year 2023 and the southern region, and leaves the products.\<close>

definition pick_2023_south :: multiselect where
  "pick_2023_south w opts dflt =
     (case w of SelectYears \<Rightarrow> [Num 2023] | SelectRegions \<Rightarrow> [Str huanan]
      | SelectProducts \<Rightarrow> dflt)"

definition empty_view :: dataframe where
  "empty_view = \<lparr>columns = demo_columns, rows = []\<rparr>"

text \<open>
  A raw table of two orders in Guangdong: one paid on a date, one whose payment date does
  not parse.
\<close>

definition raw_dates :: dataframe where
  "raw_dates =
     \<lparr>columns = [''province'', ''payment_date'', ''quantity''],
      rows = [mk_row [(''province'', Str [0x5E7F, 0x4E1C, 0x7701]),
                      (''payment_date'', Dt 2024 5 3), (''quantity'', Num 2)],
              mk_row [(''province'', Str [0x5E7F, 0x4E1C, 0x7701]),
                      (''payment_date'', Str [63]), (''quantity'', Num 1)]]\<rparr>"

text \<open>A view of four orders, one in each of four months, with an amount only.\<close>

definition demo_months :: dataframe where
  "demo_months =
     \<lparr>columns = [''_primary_date'', ''_amount''],
      rows = [mk_row [(''_primary_date'', Dt 2024 3 5), (''_amount'', Num 30)],
              mk_row [(''_primary_date'', Dt 2024 1 9), (''_amount'', Num 10)],
              mk_row [(''_primary_date'', Dt 2024 2 1), (''_amount'', Num 20)],
              mk_row [(''_primary_date'', Dt 2024 4 7), (''_amount'', Num 40)]]\<rparr>"


text \<open>
  A table of eleven orders in one region, each of another product: the products K, J, ...
  down to A, as one-letter names.
\<close>

definition demo_catalogue :: dataframe where
  "demo_catalogue =
     \<lparr>columns = [''product_name'', ''region''],
      rows = [mk_row [(''product_name'', Str [75]), (''region'', Str huabei)],
              mk_row [(''product_name'', Str [74]), (''region'', Str huabei)],
              mk_row [(''product_name'', Str [73]), (''region'', Str huabei)],
              mk_row [(''product_name'', Str [72]), (''region'', Str huabei)],
              mk_row [(''product_name'', Str [71]), (''region'', Str huabei)],
              mk_row [(''product_name'', Str [70]), (''region'', Str huabei)],
              mk_row [(''product_name'', Str [69]), (''region'', Str huabei)],
              mk_row [(''product_name'', Str [68]), (''region'', Str huabei)],
              mk_row [(''product_name'', Str [67]), (''region'', Str huabei)],
              mk_row [(''product_name'', Str [66]), (''region'', Str huabei)],
              mk_row [(''product_name'', Str [65]), (''region'', Str huabei)]]\<rparr>"

text \<open>
  A raw table of two orders with a province and a payment date and nothing else: no amount
  and no quantity. Then the normalised table that \<^verbatim>\<open>load_data\<close> makes of it, and the
  view of no rows that the selection of the year 2023 and the southern region leaves of it.
\<close>

definition raw_no_value :: dataframe where
  "raw_no_value =
     \<lparr>columns = [''province'', ''payment_date''],
      rows = [mk_row [(''province'', Str [0x5317, 0x4EAC]), (''payment_date'', Dt 2023 2 10)],
              mk_row [(''province'', Str [0x5E7F, 0x4E1C, 0x7701]),
                      (''payment_date'', Dt 2024 5 3)]]\<rparr>"

definition no_value_columns :: "string list" where
  "no_value_columns = [''province'', ''payment_date'', ''region'', ''_primary_date'', ''year'',
     ''month'', ''quarter'']"

definition view_no_value :: dataframe where
  "view_no_value =
     \<lparr>columns = no_value_columns,
      rows = [mk_row [(''province'', Str [0x5317, 0x4EAC]), (''payment_date'', Dt 2023 2 10),
                      (''region'', Str huabei), (''_primary_date'', Dt 2023 2 10),
                      (''year'', Num 2023), (''month'', Num 2), (''quarter'', Num 1)],
              mk_row [(''province'', Str [0x5E7F, 0x4E1C, 0x7701]), (''payment_date'', Dt 2024 5 3),
                      (''region'', Str huanan), (''_primary_date'', Dt 2024 5 3),
                      (''year'', Num 2024), (''month'', Num 5), (''quarter'', Num 2)]]\<rparr>"

definition empty_no_value :: dataframe where
  "empty_no_value = \<lparr>columns = no_value_columns, rows = []\<rparr>"


section \<open>Proof helpers\<close>

text \<open>A step keeps column \<open>c\<close>: same number of rows, same values in \<open>c\<close>, no column lost.\<close>

definition keeps :: "string \<Rightarrow> dataframe \<Rightarrow> dataframe \<Rightarrow> bool" where
  "keeps c df df' \<longleftrightarrow>
     length (rows df') = length (rows df) \<and>
     map (\<lambda>r. r c) (rows df') = map (\<lambda>r. r c) (rows df) \<and>
     set (columns df) \<subseteq> set (columns df')"





section \<open>Normalisation: auxiliary facts\<close>

lemma keeps_refl: "keeps c df df"
  by (simp add: keeps_def)

lemma keeps_trans: "keeps c df1 df2 \<Longrightarrow> keeps c df2 df3 \<Longrightarrow> keeps c df1 df3"
  by (auto simp: keeps_def)

lemma keeps_setitem:
  "length vs = length (rows df) \<Longrightarrow> c' \<noteq> c \<Longrightarrow> keeps c df (setitem df c' vs)"
  by (auto simp: keeps_def setitem_def list_eq_iff_nth_eq)

lemma setitem_same:
  "length vs = length (rows df) \<Longrightarrow> map (\<lambda>r. r c) (rows (setitem df c vs)) = vs"
  by (auto simp: setitem_def list_eq_iff_nth_eq)

lemma setitem_length:
  "length vs = length (rows df) \<Longrightarrow> length (rows (setitem df c vs)) = length (rows df)"
  by (simp add: setitem_def)

lemma setitem_columns: "set (columns (setitem df c vs)) = insert c (set (columns df))"
  by (auto simp: setitem_def)

lemma series_mul_length:
  "series_mul lib as bs = Inr cs \<Longrightarrow> length as = length bs \<Longrightarrow> length cs = length as"
  by (induction lib as bs arbitrary: cs rule: series_mul.induct) (auto split: sum.splits)

lemma keeps_parse_column: "col \<noteq> c \<Longrightarrow> keeps c df (parse_column lib df col)"
  by (simp add: parse_column_def keeps_refl keeps_setitem)

lemma keeps_foldl_parse:
  "c \<notin> set cols \<Longrightarrow> keeps c df (foldl (parse_column lib) df cols)"
proof (induction cols arbitrary: df)
  case Nil
  then show ?case by (simp add: keeps_refl)
next
  case (Cons a cols)
  have "keeps c df (parse_column lib df a)"
    using Cons.prems by (intro keeps_parse_column) auto
  moreover have "keeps c (parse_column lib df a) (foldl (parse_column lib) (parse_column lib df a) cols)"
    using Cons.prems by (intro Cons.IH) auto
  ultimately show ?case by (auto intro: keeps_trans)
qed

lemma keeps_parse_dates: "keeps ''region'' df (parse_dates lib df)"
  unfolding parse_dates_def by (rule keeps_foldl_parse) (simp add: date_candidates_def)

lemma keeps_resolve_primary_date: "keeps ''region'' df (resolve_primary_date df)"
proof (cases "first_present date_candidates df")
  case None
  then show ?thesis by (simp add: resolve_primary_date_def keeps_refl)
next
  case (Some p)
  define df1 where "df1 = setitem df ''_primary_date'' (map (\<lambda>r. r p) (rows df))"
  define df2 where "df2 = setitem df1 ''year'' (map (\<lambda>r. dt_year (r ''_primary_date'')) (rows df1))"
  define df3 where "df3 = setitem df2 ''month'' (map (\<lambda>r. dt_month (r ''_primary_date'')) (rows df2))"
  define df4 where "df4 = setitem df3 ''quarter'' (map (\<lambda>r. dt_quarter (r ''_primary_date'')) (rows df3))"
  have "keeps ''region'' df df1" unfolding df1_def by (rule keeps_setitem) simp_all
  moreover have "keeps ''region'' df1 df2" unfolding df2_def by (rule keeps_setitem) simp_all
  moreover have "keeps ''region'' df2 df3" unfolding df3_def by (rule keeps_setitem) simp_all
  moreover have "keeps ''region'' df3 df4" unfolding df4_def by (rule keeps_setitem) simp_all
  ultimately have "keeps ''region'' df df4" by (blast intro: keeps_trans)
  moreover have "resolve_primary_date df = df4"
    by (simp add: resolve_primary_date_def Some Let_def df1_def df2_def df3_def df4_def)
  ultimately show ?thesis by simp
qed

lemma keeps_resolve_amount:
  "resolve_amount lib df = Inr df' \<Longrightarrow> keeps ''region'' df df'"
  by (auto simp: resolve_amount_def keeps_refl split: option.splits if_splits sum.splits
      intro!: keeps_setitem dest!: series_mul_length)

lemma keeps_resolve_quantity: "keeps ''region'' df (resolve_quantity df)"
  by (simp add: resolve_quantity_def keeps_refl keeps_setitem)

lemma map_dict_range:
  "map_dict d c = Null \<or> (\<exists>s. map_dict d c = Str s \<and> s \<in> snd ` set d)"
  by (auto simp: map_dict_def split: cell.splits option.splits dest!: map_of_SomeD intro: rev_image_eqI)

lemma resolve_region_ok:
  assumes "resolve_region df = Inr df1"
  shows "length (rows df1) = length (rows df)"
    and "''region'' \<in> set (columns df1)"
    and "\<forall>r \<in> set (rows df1). r ''region'' \<noteq> Null"
    and "''region'' \<notin> set (columns df) \<Longrightarrow>
         \<forall>r \<in> set (rows df1). \<exists>s. r ''region'' = Str s \<and> (s \<in> snd ` set REGION_MAPPING \<or> s = qita)"
proof -
  define province where "province = map (\<lambda>r. map_dict REGION_MAPPING (r ''province'')) (rows df)"
  define df0 where "df0 = (if ''province'' \<in> set (columns df) then
                   (if ''region'' \<in> set (columns df) then
                      setitem df ''region''
                        (fillna_series (map (\<lambda>r. r ''region'') (rows df)) province)
                    else setitem df ''region'' province)
                 else df)"
  have len0: "length (rows df0) = length (rows df)"
    by (simp add: df0_def province_def setitem_length fillna_series_def)
  from assms have in0: "''region'' \<in> set (columns df0)"
    and df1: "df1 = setitem df0 ''region'' (fillna (map (\<lambda>r. r ''region'') (rows df0)) (Str qita))"
    by (auto simp: resolve_region_def Let_def getitem_def df0_def province_def split: if_splits)
  have lenf: "length (fillna (map (\<lambda>r. r ''region'') (rows df0)) (Str qita)) = length (rows df0)"
    by (simp add: fillna_def)
  show "length (rows df1) = length (rows df)"
    by (simp add: df1 setitem_length lenf len0)
  show "''region'' \<in> set (columns df1)"
    by (simp add: df1 setitem_columns)
  have reg1: "map (\<lambda>r. r ''region'') (rows df1) = fillna (map (\<lambda>r. r ''region'') (rows df0)) (Str qita)"
    unfolding df1 by (rule setitem_same) (rule lenf)
  have "\<forall>c \<in> set (map (\<lambda>r. r ''region'') (rows df1)). c \<noteq> Null"
    unfolding reg1 by (auto simp: fillna_def)
  then show "\<forall>r \<in> set (rows df1). r ''region'' \<noteq> Null" by simp
  show "\<forall>r \<in> set (rows df1). \<exists>s. r ''region'' = Str s \<and> (s \<in> snd ` set REGION_MAPPING \<or> s = qita)"
    if "''region'' \<notin> set (columns df)"
  proof -
    from that in0 have df0: "df0 = setitem df ''region'' province"
      by (auto simp: df0_def split: if_splits)
    have "map (\<lambda>r. r ''region'') (rows df0) = province"
      unfolding df0 by (rule setitem_same) (simp add: province_def)
    then have "map (\<lambda>r. r ''region'') (rows df1) = fillna province (Str qita)"
      by (simp add: reg1)
    moreover have "\<forall>c \<in> set (fillna province (Str qita)). \<exists>s. c = Str s \<and> (s \<in> snd ` set REGION_MAPPING \<or> s = qita)"
      using map_dict_range[of REGION_MAPPING] by (fastforce simp: fillna_def province_def)
    ultimately have "\<forall>c \<in> set (map (\<lambda>r. r ''region'') (rows df1)). \<exists>s. c = Str s \<and> (s \<in> snd ` set REGION_MAPPING \<or> s = qita)"
      by simp
    then show ?thesis by simp
  qed
qed

lemma mk_row_simps [simp]:
  "mk_row [] c = Null"
  "mk_row ((k, v) # kvs) c = (if k = c then v else mk_row kvs c)"
  by (simp_all add: mk_row_def)

lemma load_raw_provinces:
  "load_data demo_library (Inr raw_provinces) \<noteq> None"
  by (simp add: load_data_def load_data_body_def resolve_region_def raw_provinces_def getitem_def
      setitem_def fillna_def parse_dates_def date_candidates_def parse_column_def
      resolve_primary_date_def resolve_amount_def first_present_def amount_candidates_def
      resolve_quantity_def Let_def split: sum.splits)

lemma load_keeps:
  assumes "load_data lib (Inr raw) = Some df"
  obtains df1 where "resolve_region raw = Inr df1" "keeps ''region'' df1 df"
proof -
  from assms obtain df1 df2 where 1: "resolve_region raw = Inr df1"
    and 2: "resolve_amount lib (resolve_primary_date (parse_dates lib df1)) = Inr df2"
    and 3: "df = resolve_quantity df2"
    by (auto simp: load_data_def load_data_body_def split: sum.splits)
  have "keeps ''region'' df1 (parse_dates lib df1)" by (rule keeps_parse_dates)
  moreover have "keeps ''region'' (parse_dates lib df1) (resolve_primary_date (parse_dates lib df1))"
    by (rule keeps_resolve_primary_date)
  moreover have "keeps ''region'' (resolve_primary_date (parse_dates lib df1)) df2"
    using 2 by (rule keeps_resolve_amount)
  moreover have "keeps ''region'' df2 df" unfolding 3 by (rule keeps_resolve_quantity)
  ultimately have "keeps ''region'' df1 df" by (blast intro: keeps_trans)
  with 1 show thesis by (rule that)
qed

lemma keeps_Ball:
  assumes "keeps c df1 df" "\<forall>r \<in> set (rows df1). P (r c)"
  shows "\<forall>r \<in> set (rows df). P (r c)"
proof -
  from assms(2) have "\<forall>v \<in> set (map (\<lambda>r. r c) (rows df1)). P v" by simp
  with assms(1) have "\<forall>v \<in> set (map (\<lambda>r. r c) (rows df)). P v" by (simp add: keeps_def)
  then show ?thesis by simp
qed

lemma load_data_region_nonnull:
  assumes "load_data lib (Inr raw) = Some df"
  shows "\<forall>r \<in> set (rows df). r ''region'' \<noteq> Null"
proof -
  from assms obtain df1 where 1: "resolve_region raw = Inr df1" and k: "keeps ''region'' df1 df"
    by (rule load_keeps)
  show ?thesis using k resolve_region_ok(3) [OF 1] by (rule keeps_Ball)
qed

text \<open>
  Claim C3. When a raw table loads, the normalised table has a region column, it has as
  many rows as the raw table, and no row has a missing region. When the raw table had no
  region column, every region is a value of the lookup or the fallback Qita.
\<close>

theorem load_data_region_total:
  assumes "load_data lib (Inr raw) = Some df"
  shows "''region'' \<in> set (columns df) \<and>
         length (rows df) = length (rows raw) \<and>
         (\<forall>r \<in> set (rows df). r ''region'' \<noteq> Null) \<and>
         (''region'' \<notin> set (columns raw) \<longrightarrow>
            (\<forall>r \<in> set (rows df). \<exists>s. r ''region'' = Str s \<and>
                (s \<in> snd ` set REGION_MAPPING \<or> s = qita)))"
proof -
  from assms obtain df1 where 1: "resolve_region raw = Inr df1" and k: "keeps ''region'' df1 df"
    by (rule load_keeps)
  note r = resolve_region_ok [OF 1]
  have "''region'' \<in> set (columns df)" using r(2) k by (auto simp: keeps_def)
  moreover have "length (rows df) = length (rows raw)" using r(1) k by (simp add: keeps_def)
  moreover have "\<forall>r \<in> set (rows df). r ''region'' \<noteq> Null"
    using k r(3) by (rule keeps_Ball)
  moreover have "\<forall>r \<in> set (rows df). \<exists>s. r ''region'' = Str s \<and>
                (s \<in> snd ` set REGION_MAPPING \<or> s = qita)"
    if "''region'' \<notin> set (columns raw)"
    using k r(4) [OF that] by (rule keeps_Ball)
  ultimately show ?thesis by blast
qed

theorem load_data_region_total_witness:
  "load_data demo_library (Inr raw_provinces) \<noteq> None \<and>
   ''region'' \<notin> set (columns raw_provinces) \<and>
   ''region'' \<in> set (columns (the (load_data demo_library (Inr raw_provinces)))) \<and>
   length (rows (the (load_data demo_library (Inr raw_provinces)))) = 2 \<and>
   list_all (\<lambda>r. r ''region'' \<noteq> Null \<and> (\<exists>s. r ''region'' = Str s \<and>
                (s \<in> snd ` set REGION_MAPPING \<or> s = qita)))
     (rows (the (load_data demo_library (Inr raw_provinces))))"
proof -
  have h: "load_data demo_library (Inr raw_provinces) =
           Some (the (load_data demo_library (Inr raw_provinces)))"
    using load_raw_provinces by simp
  have c: "''region'' \<notin> set (columns raw_provinces)" by (simp add: raw_provinces_def)
  have n: "length (rows raw_provinces) = 2" by (simp add: raw_provinces_def)
  show ?thesis
    using load_data_region_total [OF h] load_raw_provinces c n
    by (simp add: list_all_iff)
qed


lemma resolve_region_derived:
  assumes "resolve_region raw = Inr df1" and "''region'' \<notin> set (columns raw)"
  shows "map (\<lambda>r. r ''region'') (rows df1) =
         fillna (map (\<lambda>r. map_dict REGION_MAPPING (r ''province'')) (rows raw)) (Str qita)"
proof -
  define province where "province = map (\<lambda>r. map_dict REGION_MAPPING (r ''province'')) (rows raw)"
  define df0 where "df0 = setitem raw ''region'' province"
  have reg0: "map (\<lambda>r. r ''region'') (rows df0) = province"
    unfolding df0_def by (rule setitem_same) (simp add: province_def)
  have len0: "length (rows df0) = length (rows raw)"
    unfolding df0_def by (rule setitem_length) (simp add: province_def)
  from assms have "df1 = setitem df0 ''region'' (fillna (map (\<lambda>r. r ''region'') (rows df0)) (Str qita))"
    by (auto simp: resolve_region_def Let_def getitem_def df0_def province_def split: if_splits)
  then have "df1 = setitem df0 ''region'' (fillna province (Str qita))"
    by (simp add: reg0)
  moreover have "map (\<lambda>r. r ''region'') (rows (setitem df0 ''region'' (fillna province (Str qita))))
      = fillna province (Str qita)"
    by (rule setitem_same) (simp add: fillna_def len0 province_def)
  ultimately show ?thesis by (simp add: province_def)
qed

lemma REGION_MAPPING_distinct: "distinct (map fst REGION_MAPPING)"
  by (simp add: REGION_MAPPING_def)

lemma REGION_MAPPING_length: "length REGION_MAPPING = 31"
  by (simp add: REGION_MAPPING_def)

lemma REGION_MAPPING_missing:
  "map_of REGION_MAPPING taiwan = None"
  "map_of REGION_MAPPING hongkong = None"
  "map_of REGION_MAPPING macau = None"
  by (simp_all add: REGION_MAPPING_def taiwan_def hongkong_def macau_def)

text \<open>
  Claim C4, as stated, fails: the lookup has 31 distinct keys, and none for Taiwan, Hong
  Kong or Macau, so it does not list 34 provincial-level units.
\<close>

theorem region_lookup_not_exhaustive:
  "map_of REGION_MAPPING taiwan = None \<and> map_of REGION_MAPPING hongkong = None \<and>
   map_of REGION_MAPPING macau = None \<and> card (fst ` set REGION_MAPPING) = 31"
proof -
  have "card (set (map fst REGION_MAPPING)) = length (map fst REGION_MAPPING)"
    using REGION_MAPPING_distinct by (rule distinct_card)
  then have "card (fst ` set REGION_MAPPING) = 31"
    by (simp add: REGION_MAPPING_length)
  then show ?thesis by (simp add: REGION_MAPPING_missing)
qed

text \<open>
  Claim C4, amended. The lookup has exactly 31 entries with distinct keys; Taiwan, Hong Kong
  and Macau are not among them. When the region is derived from the province, a row's
  region is the lookup's value for its province, and the fallback Qita for every province
  that is not a key (a missing province included).
\<close>

theorem region_lookup_mainland_default:
  assumes "load_data lib (Inr raw) = Some df"
    and "''region'' \<notin> set (columns raw)"
    and "i < length (rows raw)"
  shows "length REGION_MAPPING = 31 \<and> distinct (map fst REGION_MAPPING) \<and>
         taiwan \<notin> fst ` set REGION_MAPPING \<and> hongkong \<notin> fst ` set REGION_MAPPING \<and>
         macau \<notin> fst ` set REGION_MAPPING \<and>
         (rows df ! i) ''region'' =
           (case (rows raw ! i) ''province'' of
              Str p \<Rightarrow> (case map_of REGION_MAPPING p of Some g \<Rightarrow> Str g | None \<Rightarrow> Str qita)
            | _ \<Rightarrow> Str qita)"
proof -
  from assms(1) obtain df1 where 1: "resolve_region raw = Inr df1" and k: "keeps ''region'' df1 df"
    by (rule load_keeps)
  have len: "length (rows df) = length (rows raw)"
    using resolve_region_ok(1) [OF 1] k by (simp add: keeps_def)
  have "map (\<lambda>r. r ''region'') (rows df) =
        fillna (map (\<lambda>r. map_dict REGION_MAPPING (r ''province'')) (rows raw)) (Str qita)"
    using resolve_region_derived [OF 1 assms(2)] k by (simp add: keeps_def)
  then have "map (\<lambda>r. r ''region'') (rows df) ! i =
        fillna (map (\<lambda>r. map_dict REGION_MAPPING (r ''province'')) (rows raw)) (Str qita) ! i"
    by simp
  then have "(rows df ! i) ''region'' =
      (if map_dict REGION_MAPPING ((rows raw ! i) ''province'') = Null then Str qita
       else map_dict REGION_MAPPING ((rows raw ! i) ''province''))"
    using assms(3) len by (simp add: fillna_def)
  then have "(rows df ! i) ''region'' =
           (case (rows raw ! i) ''province'' of
              Str p \<Rightarrow> (case map_of REGION_MAPPING p of Some g \<Rightarrow> Str g | None \<Rightarrow> Str qita)
            | _ \<Rightarrow> Str qita)"
    by (simp add: map_dict_def split: cell.splits option.splits)
  moreover have "taiwan \<notin> fst ` set REGION_MAPPING" "hongkong \<notin> fst ` set REGION_MAPPING"
    "macau \<notin> fst ` set REGION_MAPPING"
    using REGION_MAPPING_missing by (simp_all add: map_of_eq_None_iff)
  ultimately show ?thesis
    by (simp add: REGION_MAPPING_length REGION_MAPPING_distinct)
qed

theorem region_lookup_mainland_default_witness:
  "load_data demo_library (Inr raw_provinces) \<noteq> None \<and>
   ''region'' \<notin> set (columns raw_provinces) \<and> 1 < length (rows raw_provinces) \<and>
   (rows raw_provinces ! 1) ''province'' = Str taiwan \<and>
   (rows (the (load_data demo_library (Inr raw_provinces))) ! 1) ''region'' = Str qita \<and>
   (rows (the (load_data demo_library (Inr raw_provinces))) ! 0) ''region'' = Str huanan"
proof -
  have h: "load_data demo_library (Inr raw_provinces) =
           Some (the (load_data demo_library (Inr raw_provinces)))"
    using load_raw_provinces by simp
  have c: "''region'' \<notin> set (columns raw_provinces)" by (simp add: raw_provinces_def)
  have n: "1 < length (rows raw_provinces)" "0 < length (rows raw_provinces)"
    by (simp_all add: raw_provinces_def)
  have p: "(rows raw_provinces ! 1) ''province'' = Str taiwan"
    "(rows raw_provinces ! 0) ''province'' = Str [0x5E7F, 0x4E1C, 0x7701]"
    by (simp_all add: raw_provinces_def)
  have m: "map_of REGION_MAPPING [0x5E7F, 0x4E1C, 0x7701] = Some huanan"
    by (simp add: REGION_MAPPING_def)
  show ?thesis
    using region_lookup_mainland_default [OF h c n(1)] region_lookup_mainland_default [OF h c n(2)]
      load_raw_provinces c n p
    by (simp add: REGION_MAPPING_missing m)
qed

text \<open>
  Claim C5. A table that parses, with a quantity and a unit price but neither a region nor a
  province, does not load: line 43 reads the region column, which does not exist, and the
  KeyError becomes the load error.
\<close>

theorem load_data_fails_without_location:
  "load_data lib (Inr raw_no_location) = None"
  by (simp add: load_data_def load_data_body_def resolve_region_def raw_no_location_def getitem_def)

section \<open>Filtering\<close>

lemmas load_defs = load_data_def load_data_body_def resolve_region_def getitem_def
      setitem_def fillna_def fillna_series_def parse_dates_def date_candidates_def parse_column_def
      resolve_primary_date_def resolve_amount_def first_present_def amount_candidates_def
      resolve_quantity_def to_datetime_def dt_year_def dt_month_def dt_quarter_def map_dict_def

lemma load_raw_dates: "load_data demo_library (Inr raw_dates) \<noteq> None"
  by (simp add: load_defs raw_dates_def Let_def split: sum.splits)

lemma py_sorted_Inr:
  assumes "py_sorted xs = Inr ys"
  shows "ys = sort_key cell_key xs"
  using assms by (auto simp: py_sorted_def split: list.splits if_splits)

lemma py_sorted_same_kind:
  assumes "\<forall>x \<in> set xs. kind x = j"
  shows "py_sorted xs = Inr (sort_key cell_key xs)"
  using assms by (auto simp: py_sorted_def list_all_iff split: list.splits)

lemma rows_isin_filter:
  "rows (isin_filter c sel df) =
     (case sel of None \<Rightarrow> rows df
      | Some vs \<Rightarrow> if vs = [] then rows df else filter (\<lambda>r. r c \<in> set vs) (rows df))"
  by (simp add: isin_filter_def split: option.splits)

lemma columns_isin_filter: "columns (isin_filter c sel df) = columns df"
  by (simp add: isin_filter_def split: option.splits)

lemma set_rows_isin_filter: "set (rows (isin_filter c sel df)) \<subseteq> set (rows df)"
  by (auto simp: rows_isin_filter split: option.splits)

lemma isin_filter_all:
  assumes "\<forall>r \<in> set (rows df). r c \<in> set vs"
  shows "isin_filter c (Some vs) df = df"
proof -
  have "filter (\<lambda>r. r c \<in> set vs) (rows df) = rows df"
    using assms by (simp add: filter_id_conv)
  then show ?thesis by (simp add: isin_filter_def)
qed

lemma isin_filter_empty: "isin_filter c (Some []) df = df"
  by (simp add: isin_filter_def)

lemma isin_filter_full:
  assumes "set full = set (dropna (map (\<lambda>r. r c) (rows df)))"
    and "\<forall>r \<in> set (rows df). r c \<noteq> Null"
    and "set (rows d) \<subseteq> set (rows df)"
  shows "isin_filter c (Some full) d = isin_filter c (Some []) d"
proof -
  have "\<forall>r \<in> set (rows d). r c \<in> set full"
    using assms by (auto simp: dropna_def)
  then show ?thesis by (simp add: isin_filter_all isin_filter_empty)
qed

text \<open>
  Claim C2, as stated, fails on a normalised table with a payment date that does not parse:
  the empty selection of years keeps both rows, the selection of every observed year (2024
  alone) drops the row without a year.
\<close>

theorem empty_selection_counterexample:
  "load_data demo_library (Inr raw_dates) \<noteq> None \<and>
   py_sorted (unique (dropna (map (\<lambda>r. r ''year'')
      (rows (the (load_data demo_library (Inr raw_dates))))))) = Inr [Num 2024] \<and>
   length (rows (apply_filters (Some []) (Some []) None
      (the (load_data demo_library (Inr raw_dates))))) = 2 \<and>
   length (rows (apply_filters (Some [Num 2024]) (Some []) None
      (the (load_data demo_library (Inr raw_dates))))) = 1"
  by (simp add: load_defs raw_dates_def Let_def demo_library_def apply_filters_def isin_filter_def
      unique_def dropna_def py_sorted_def kind_def)

text \<open>
  Claim C2, amended. For a dimension \<open>D\<close> among year, region and product in which no row
  of the table has a missing value, the empty selection for \<open>D\<close> and the selection of all
  observed values of \<open>D\<close> give the same filtered table, whatever the other two selections.
  In a table that \<^verbatim>\<open>load_data\<close> returned this holds for the region without a condition.
\<close>

theorem empty_selection_is_full_selection:
  assumes "\<forall>r \<in> set (rows df). r D \<noteq> Null"
    and "set full = set (dropna (map (\<lambda>r. r D) (rows df)))"
  shows "(D = ''year'' \<longrightarrow>
            apply_filters (Some full) sr sp df = apply_filters (Some []) sr sp df) \<and>
         (D = ''region'' \<longrightarrow>
            apply_filters sy (Some full) sp df = apply_filters sy (Some []) sp df) \<and>
         (D = ''product_name'' \<longrightarrow>
            apply_filters sy sr (Some full) df = apply_filters sy sr (Some []) df) \<and>
         (load_data lib source = Some df \<and>
          set regions = set (unique (map (\<lambda>r. r ''region'') (rows df))) \<longrightarrow>
            apply_filters sy (Some regions) sp df = apply_filters sy (Some []) sp df)"
proof (intro conjI impI)
  assume D: "D = ''year''"
  have "isin_filter ''year'' (Some full) df = isin_filter ''year'' (Some []) df"
    using assms by (intro isin_filter_full [where df = df]) (simp_all add: D)
  then show "apply_filters (Some full) sr sp df = apply_filters (Some []) sr sp df"
    by (simp add: apply_filters_def)
next
  assume D: "D = ''region''"
  have "isin_filter ''region'' (Some full) (isin_filter ''year'' sy df)
      = isin_filter ''region'' (Some []) (isin_filter ''year'' sy df)"
    using assms set_rows_isin_filter
    by (intro isin_filter_full [where df = df]) (simp_all add: D)
  then show "apply_filters sy (Some full) sp df = apply_filters sy (Some []) sp df"
    by (simp add: apply_filters_def)
next
  assume D: "D = ''product_name''"
  have "set (rows (isin_filter ''region'' sr (isin_filter ''year'' sy df))) \<subseteq> set (rows df)"
    using set_rows_isin_filter by blast
  then have "isin_filter ''product_name'' (Some full)
        (isin_filter ''region'' sr (isin_filter ''year'' sy df))
      = isin_filter ''product_name'' (Some [])
        (isin_filter ''region'' sr (isin_filter ''year'' sy df))"
    using assms by (intro isin_filter_full [where df = df]) (simp_all add: D)
  then show "apply_filters sy sr (Some full) df = apply_filters sy sr (Some []) df"
    by (simp add: apply_filters_def)
next
  assume a: "load_data lib source = Some df \<and>
             set regions = set (unique (map (\<lambda>r. r ''region'') (rows df)))"
  then obtain raw where "load_data lib (Inr raw) = Some df"
    by (cases source) (auto simp: load_data_def load_data_body_def)
  then have nonull: "\<forall>r \<in> set (rows df). r ''region'' \<noteq> Null"
    by (rule load_data_region_nonnull)
  then have "set regions = set (dropna (map (\<lambda>r. r ''region'') (rows df)))"
    using a by (simp add: unique_def dropna_def filter_id_conv)
  with nonull have "isin_filter ''region'' (Some regions) (isin_filter ''year'' sy df)
      = isin_filter ''region'' (Some []) (isin_filter ''year'' sy df)"
    using set_rows_isin_filter by (intro isin_filter_full [where df = df]) simp_all
  then show "apply_filters sy (Some regions) sp df = apply_filters sy (Some []) sp df"
    by (simp add: apply_filters_def)
qed

theorem empty_selection_is_full_selection_witness:
  "load_data demo_library (Inr raw_dates) \<noteq> None \<and>
   list_all (\<lambda>r. r ''region'' \<noteq> Null) (rows (the (load_data demo_library (Inr raw_dates)))) \<and>
   set [Str huanan] = set (dropna (map (\<lambda>r. r ''region'')
      (rows (the (load_data demo_library (Inr raw_dates)))))) \<and>
   apply_filters (Some [Num 2024]) (Some [Str huanan]) None
      (the (load_data demo_library (Inr raw_dates)))
   = apply_filters (Some [Num 2024]) (Some []) None (the (load_data demo_library (Inr raw_dates)))"
proof -
  let ?df = "the (load_data demo_library (Inr raw_dates))"
  have m: "map_of REGION_MAPPING [0x5E7F, 0x4E1C, 0x7701] = Some huanan"
    by (simp add: REGION_MAPPING_def)
  have 1: "\<forall>r \<in> set (rows ?df). r ''region'' \<noteq> Null"
    by (simp add: load_defs raw_dates_def Let_def demo_library_def m)
  have 2: "set [Str huanan] = set (dropna (map (\<lambda>r. r ''region'') (rows ?df)))"
    by (simp add: load_defs raw_dates_def Let_def demo_library_def m dropna_def)
  show ?thesis
    using empty_selection_is_full_selection [OF 1 2, of "Some [Num 2024]" None] 1 2 load_raw_dates
    by (simp add: list_all_iff)
qed

section \<open>Charts on a view of no rows\<close>

text \<open>
  Claim C1. The table of the two demo orders is what \<^verbatim>\<open>load_data\<close> returns for the raw
  orders. The user who selects the year 2023 and the southern region gets a view of it with
  no rows. On it the trend, the quarterly comparison and the rose chart
  return \<^verbatim>\<open>None\<close>; the regional bars raise ValueError at \<^verbatim>\<open>max(quantities)\<close>, and the
  product ranking returns a figure with no bar.
\<close>

theorem charts_on_empty_view:
  "load_data demo_library (Inr raw_orders) \<noteq> None \<and>
   columns (the (load_data demo_library (Inr raw_orders))) = columns demo_orders \<and>
   map (\<lambda>r. map r demo_columns) (rows (the (load_data demo_library (Inr raw_orders))))
     = map (\<lambda>r. map r demo_columns) (rows demo_orders) \<and>
   sidebar_filters pick_2023_south demo_orders = Inr empty_view \<and>
   rows empty_view = [] \<and>
   plot_regional_gradient_bars lib empty_view = Inl ValueError \<and>
   plot_top_products lib empty_view 10
     = Inr (Some \<lparr>artists = [BarsH []], ticks = [], ticklabels = []\<rparr>) \<and>
   plot_monthly_trend lib empty_view = Inr None \<and>
   plot_quarterly_comparison lib empty_view = Inr None \<and>
   plot_rose_chart lib empty_view = Inr None"
proof (intro conjI)
  have m: "map_of REGION_MAPPING [0x5E7F, 0x4E1C, 0x7701] = Some huanan"
    "map_of REGION_MAPPING [0x5317, 0x4EAC] = Some huabei"
    by (simp_all add: REGION_MAPPING_def)
  show "load_data demo_library (Inr raw_orders) \<noteq> None"
    by (simp add: load_defs raw_orders_def Let_def demo_library_def m)
  show "columns (the (load_data demo_library (Inr raw_orders))) = columns demo_orders"
    by (simp add: load_defs raw_orders_def demo_orders_def demo_columns_def Let_def
        demo_library_def m)
  show "map (\<lambda>r. map r demo_columns) (rows (the (load_data demo_library (Inr raw_orders))))
     = map (\<lambda>r. map r demo_columns) (rows demo_orders)"
    by (simp add: load_defs raw_orders_def demo_orders_def demo_columns_def Let_def
        demo_library_def m)
  show "sidebar_filters pick_2023_south demo_orders = Inr empty_view"
    by (simp add: sidebar_filters_def select_years_def select_regions_def select_products_def
      demo_orders_def demo_columns_def getitem_def unique_def dropna_def py_sorted_def kind_def
      pick_2023_south_def apply_filters_def isin_filter_def empty_view_def huabei_def huanan_def)
  show "rows empty_view = []"
    by (simp add: empty_view_def)
  show "plot_regional_gradient_bars lib empty_view = Inl ValueError"
    by (simp add: plot_regional_gradient_bars_def region_stats_def groupby_sum_def empty_view_def
      demo_columns_def sum_groups_def series_sum_def map_table_def group_keys_def unique_def dropna_def sort_values_desc_def)
  show "plot_top_products lib empty_view 10
     = Inr (Some \<lparr>artists = [BarsH []], ticks = [], ticklabels = []\<rparr>)"
    by (simp add: plot_top_products_def top_products_def groupby_sum_def empty_view_def
      demo_columns_def sum_groups_def series_sum_def map_table_def group_keys_def unique_def dropna_def sort_values_desc_def)
  show "plot_monthly_trend lib empty_view = Inr None"
    by (simp add: plot_monthly_trend_def monthly_table_def dated_rows_def empty_view_def
      demo_columns_def sum_groups_def)
  show "plot_quarterly_comparison lib empty_view = Inr None"
    by (simp add: plot_quarterly_comparison_def quarterly_table_def groupby_sum2_def
      group_keys2_def empty_view_def demo_columns_def sum_groups_def unique_def py_sorted_def)
  show "plot_rose_chart lib empty_view = Inr None"
    by (simp add: plot_rose_chart_def rose_agg_def groupby_sum_def empty_view_def
      demo_columns_def sum_groups_def series_sum_def map_table_def group_keys_def unique_def dropna_def sort_values_desc_def)
qed

theorem charts_on_empty_view_witness:
  "plot_regional_gradient_bars demo_library empty_view = Inl ValueError \<and>
   plot_monthly_trend demo_library empty_view = Inr None"
  using charts_on_empty_view [of demo_library] by simp

section \<open>The value field of each chart\<close>




















section \<open>Charts on a view without a value field\<close>

lemma load_raw_no_value:
  "load_data demo_library (Inr raw_no_value) \<noteq> None \<and>
   columns (the (load_data demo_library (Inr raw_no_value))) = columns view_no_value \<and>
   map (\<lambda>r. map r no_value_columns) (rows (the (load_data demo_library (Inr raw_no_value))))
     = map (\<lambda>r. map r no_value_columns) (rows view_no_value)"
proof -
  have m: "map_of REGION_MAPPING [0x5E7F, 0x4E1C, 0x7701] = Some huanan"
    "map_of REGION_MAPPING [0x5317, 0x4EAC] = Some huabei"
    by (simp_all add: REGION_MAPPING_def)
  show ?thesis
    by (simp add: load_defs raw_no_value_def view_no_value_def no_value_columns_def Let_def
        demo_library_def m)
qed

lemma filter_no_value: "sidebar_filters pick_2023_south view_no_value = Inr empty_no_value"
  by (simp add: sidebar_filters_def select_years_def select_regions_def select_products_def
      view_no_value_def no_value_columns_def getitem_def unique_def dropna_def py_sorted_def
      kind_def pick_2023_south_def apply_filters_def isin_filter_def empty_no_value_def
      huabei_def huanan_def)

text \<open>
  Claim C7. The raw table without an amount and without a quantity loads, and its normalised
  table has a primary date and neither value field. Its two dated rows fall in two months,
  and the view that the selection of 2023 and the south leaves has no row and no month. On
  both the trend raises KeyError at line 228, where it reads the value column: it neither
  draws the two months nor returns \<^verbatim>\<open>None\<close> for the view of none.
\<close>

theorem trend_without_value_field:
  "load_data demo_library (Inr raw_no_value) \<noteq> None \<and>
   columns (the (load_data demo_library (Inr raw_no_value))) = columns view_no_value \<and>
   map (\<lambda>r. map r no_value_columns) (rows (the (load_data demo_library (Inr raw_no_value))))
     = map (\<lambda>r. map r no_value_columns) (rows view_no_value) \<and>
   sidebar_filters pick_2023_south view_no_value = Inr empty_no_value \<and>
   ''_primary_date'' \<in> set (columns view_no_value) \<and>
   map (\<lambda>r. year_month (r ''_primary_date'')) (dated_rows view_no_value) = [(2023, 2), (2024, 5)] \<and>
   plot_monthly_trend lib view_no_value = Inl (KeyError ''_quantity'') \<and>
   dated_rows empty_no_value = [] \<and>
   plot_monthly_trend lib empty_no_value = Inl (KeyError ''_quantity'')"
  using load_raw_no_value filter_no_value
  by (simp add: plot_monthly_trend_def monthly_table_def dated_rows_def view_no_value_def
      empty_no_value_def no_value_columns_def is_date_def year_month_def)

theorem trend_without_value_field_witness:
  "plot_monthly_trend demo_library view_no_value = Inl (KeyError ''_quantity'') \<and>
   plot_monthly_trend demo_library empty_no_value = Inl (KeyError ''_quantity'')"
  using trend_without_value_field [of demo_library] by simp

text \<open>
  Claim C8. The same normalised table has a year and a quarter in every row, two distinct
  years. The quarterly comparison raises KeyError at line 280, where it reads the value
  column, and draws no bar.
\<close>

theorem quarterly_without_value_field:
  "load_data demo_library (Inr raw_no_value) \<noteq> None \<and>
   columns (the (load_data demo_library (Inr raw_no_value))) = columns view_no_value \<and>
   map (\<lambda>r. map r no_value_columns) (rows (the (load_data demo_library (Inr raw_no_value))))
     = map (\<lambda>r. map r no_value_columns) (rows view_no_value) \<and>
   ''year'' \<in> set (columns view_no_value) \<and> ''quarter'' \<in> set (columns view_no_value) \<and>
   map (\<lambda>r. (r ''year'', r ''quarter'')) (rows view_no_value)
     = [(Num 2023, Num 1), (Num 2024, Num 2)] \<and>
   plot_quarterly_comparison lib view_no_value = Inl (KeyError ''_quantity'')"
  using load_raw_no_value
  by (simp add: plot_quarterly_comparison_def quarterly_table_def groupby_sum2_def
      view_no_value_def no_value_columns_def)

theorem quarterly_without_value_field_witness:
  "plot_quarterly_comparison demo_library view_no_value = Inl (KeyError ''_quantity'')"
  using quarterly_without_value_field [of demo_library] by simp

text \<open>
  Claim C9. On the view of no rows of the same table there is no category, and the rose chart
  raises KeyError at line 331, where it reads the value column, before the check of line 338
  that would return \<^verbatim>\<open>None\<close>. On the table itself, of two regions, it raises as well.
\<close>

theorem rose_without_value_field:
  "load_data demo_library (Inr raw_no_value) \<noteq> None \<and>
   columns (the (load_data demo_library (Inr raw_no_value))) = columns view_no_value \<and>
   map (\<lambda>r. map r no_value_columns) (rows (the (load_data demo_library (Inr raw_no_value))))
     = map (\<lambda>r. map r no_value_columns) (rows view_no_value) \<and>
   sidebar_filters pick_2023_south view_no_value = Inr empty_no_value \<and>
   rows empty_no_value = [] \<and>
   plot_rose_chart lib empty_no_value = Inl (KeyError ''_amount'') \<and>
   map (\<lambda>r. r ''region'') (rows view_no_value) = [Str huabei, Str huanan] \<and>
   plot_rose_chart lib view_no_value = Inl (KeyError ''_amount'')"
  using load_raw_no_value filter_no_value
  by (simp add: plot_rose_chart_def rose_agg_def groupby_sum_def map_table_def
      view_no_value_def empty_no_value_def no_value_columns_def)

theorem rose_without_value_field_witness:
  "plot_rose_chart demo_library empty_no_value = Inl (KeyError ''_amount'') \<and>
   plot_rose_chart demo_library view_no_value = Inl (KeyError ''_amount'')"
  using rose_without_value_field [of demo_library] by simp

section \<open>The product filter\<close>

lemma select_products_cases:
  assumes "py_sorted (unique (dropna (map (\<lambda>r. r ''product_name'') (rows df)))) = Inr products"
  shows "select_products ui df =
     (if ''product_name'' \<in> set (columns df) \<and> length products \<le> 50 then
        Inr (Some (ui SelectProducts products
                     (if 10 < length products then take 10 products else products)))
      else Inr None)"
  using assms by (simp add: select_products_def)

lemma apply_filters_None:
  "apply_filters sy sr None d = isin_filter ''region'' sr (isin_filter ''year'' sy d)"
  by (simp add: apply_filters_def isin_filter_def)

lemma sidebar_filters_Inr:
  assumes "sidebar_filters ui df = Inr view"
  shows "\<exists>sy sr sp. select_products ui df = Inr sp \<and> view = apply_filters sy sr sp df"
  using assms by (auto simp: sidebar_filters_def split: sum.splits)

text \<open>
  Claim C10. Let \<open>products\<close> be the sorted distinct product names of the table that are not
  missing. With no product column, or with more than 50 products, no product selection is
  made and the filtered view is the table restricted by year and region only. With a product
  column and at most 50 products the widget is offered, its default being the first ten
  products when there are more than ten, and all of them otherwise. With more than ten
  (and at most 50) products and the default kept, every row of the filtered view has one of
  the first ten products, and no row of the other products is in it.
\<close>

theorem product_filter_offer:
  assumes sorted: "py_sorted (unique (dropna (map (\<lambda>r. r ''product_name'') (rows df)))) = Inr products"
  shows "length products = card (set (dropna (map (\<lambda>r. r ''product_name'') (rows df)))) \<and>
         sorted (map cell_key products) \<and>
         (''product_name'' \<notin> set (columns df) \<or> 50 < length products \<longrightarrow>
            select_products ui df = Inr None \<and>
            (\<forall>view. sidebar_filters ui df = Inr view \<longrightarrow>
               (\<exists>sy sr. view = isin_filter ''region'' sr (isin_filter ''year'' sy df)))) \<and>
         (''product_name'' \<in> set (columns df) \<and> length products \<le> 50 \<longrightarrow>
            select_products ui df =
              Inr (Some (ui SelectProducts products
                           (if 10 < length products then take 10 products else products)))) \<and>
         (''product_name'' \<in> set (columns df) \<and> 10 < length products \<and> length products \<le> 50 \<longrightarrow>
            select_products keep_default df = Inr (Some (take 10 products)) \<and>
            (\<forall>view. sidebar_filters keep_default df = Inr view \<longrightarrow>
               (\<forall>r \<in> set (rows view). r ''product_name'' \<in> set (take 10 products)) \<and>
               (\<forall>r \<in> set (rows df). r ''product_name'' \<in> set (drop 10 products) \<longrightarrow>
                                       r \<notin> set (rows view))))"
proof -
  let ?obs = "unique (dropna (map (\<lambda>r. r ''product_name'') (rows df)))"
  have products: "products = sort_key cell_key ?obs"
    using sorted by (rule py_sorted_Inr)
  have dist: "distinct products" by (simp add: products unique_def)
  have "length products = card (set ?obs)"
    by (simp add: products unique_def card_distinct length_remdups_card_conv)
  then have 1: "length products = card (set (dropna (map (\<lambda>r. r ''product_name'') (rows df))))"
    by (simp add: unique_def)
  have 2: "sorted (map cell_key products)"
    unfolding products by (rule sorted_sort_key)
  note sel = select_products_cases [OF sorted]
  have 3: "select_products ui df = Inr None \<and>
            (\<forall>view. sidebar_filters ui df = Inr view \<longrightarrow>
               (\<exists>sy sr. view = isin_filter ''region'' sr (isin_filter ''year'' sy df)))"
    if "''product_name'' \<notin> set (columns df) \<or> 50 < length products"
  proof -
    from that have none: "select_products ui df = Inr None" by (auto simp: sel)
    have "\<exists>sy sr. view = isin_filter ''region'' sr (isin_filter ''year'' sy df)"
      if "sidebar_filters ui df = Inr view" for view
      using sidebar_filters_Inr [OF that] none by (auto simp: apply_filters_None)
    with none show ?thesis by blast
  qed
  have 4: "select_products ui df =
              Inr (Some (ui SelectProducts products
                           (if 10 < length products then take 10 products else products)))"
    if "''product_name'' \<in> set (columns df) \<and> length products \<le> 50"
    using that by (simp add: sel)
  have 5: "select_products keep_default df = Inr (Some (take 10 products)) \<and>
            (\<forall>view. sidebar_filters keep_default df = Inr view \<longrightarrow>
               (\<forall>r \<in> set (rows view). r ''product_name'' \<in> set (take 10 products)) \<and>
               (\<forall>r \<in> set (rows df). r ''product_name'' \<in> set (drop 10 products) \<longrightarrow>
                                       r \<notin> set (rows view)))"
    if h: "''product_name'' \<in> set (columns df) \<and> 10 < length products \<and> length products \<le> 50"
  proof -
    from h have sp: "select_products keep_default df = Inr (Some (take 10 products))"
      by (simp add: select_products_cases [OF sorted] keep_default_def)
    from h have ne: "take 10 products \<noteq> []" by auto
    have disj: "set (take 10 products) \<inter> set (drop 10 products) = {}"
      using dist by (rule set_take_disj_set_drop_if_distinct) simp
    have "(\<forall>r \<in> set (rows view). r ''product_name'' \<in> set (take 10 products)) \<and>
          (\<forall>r \<in> set (rows df). r ''product_name'' \<in> set (drop 10 products) \<longrightarrow>
                                       r \<notin> set (rows view))"
      if "sidebar_filters keep_default df = Inr view" for view
    proof -
      from sidebar_filters_Inr [OF that] sp obtain sy sr where
        view: "view = apply_filters sy sr (Some (take 10 products)) df"
        by auto
      have "\<forall>r \<in> set (rows view). r ''product_name'' \<in> set (take 10 products)"
        using ne by (simp add: view apply_filters_def rows_isin_filter)
      with disj show ?thesis by blast
    qed
    with sp show ?thesis by blast
  qed
  from 1 2 3 4 5 show ?thesis by blast
qed

lemma products_demo_catalogue:
  "py_sorted (unique (dropna (map (\<lambda>r. r ''product_name'') (rows demo_catalogue))))
   = Inr 
       [Str [65], Str [66], Str [67], Str [68], Str [69], Str [70], Str [71], Str [72], Str [73], Str [74], Str [75]]"
  by (simp add: demo_catalogue_def unique_def dropna_def py_sorted_def kind_def cell_key_def)

lemma sidebar_demo_catalogue: "\<exists>view. sidebar_filters keep_default demo_catalogue = Inr view"
proof -
  have y: "select_years keep_default demo_catalogue = Inr None"
    by (simp add: select_years_def demo_catalogue_def)
  have r: "\<exists>sr. select_regions keep_default demo_catalogue = Inr sr"
    by (simp add: select_regions_def getitem_def demo_catalogue_def unique_def py_sorted_def kind_def)
  have p: "\<exists>sp. select_products keep_default demo_catalogue = Inr sp"
    by (simp add: select_products_cases [OF products_demo_catalogue])
  from r p obtain sr sp where "select_regions keep_default demo_catalogue = Inr sr"
    "select_products keep_default demo_catalogue = Inr sp" by blast
  with y show ?thesis by (simp add: sidebar_filters_def)
qed

theorem product_filter_offer_witness:
  "py_sorted (unique (dropna (map (\<lambda>r. r ''product_name'') (rows demo_catalogue))))
     = Inr 
       [Str [65], Str [66], Str [67], Str [68], Str [69], Str [70], Str [71], Str [72], Str [73], Str [74], Str [75]] \<and>
   select_products keep_default demo_catalogue = Inr (Some 
       [Str [65], Str [66], Str [67], Str [68], Str [69], Str [70], Str [71], Str [72], Str [73], Str [74]]) \<and>
   (\<exists>view. sidebar_filters keep_default demo_catalogue = Inr view \<and>
      list_all (\<lambda>r. r ''product_name'' \<in> set 
       [Str [65], Str [66], Str [67], Str [68], Str [69], Str [70], Str [71], Str [72], Str [73], Str [74]]) (rows view) \<and>
      mk_row [(''product_name'', Str [75]), (''region'', Str huabei)] \<notin> set (rows view))"
proof -
  note th = product_filter_offer [OF products_demo_catalogue, of keep_default]
  have c: "''product_name'' \<in> set (columns demo_catalogue)"
    by (simp add: demo_catalogue_def)
  have t: "take 10 
       [Str [65], Str [66], Str [67], Str [68], Str [69], Str [70], Str [71], Str [72], Str [73], Str [74], Str [75]] = 
       [Str [65], Str [66], Str [67], Str [68], Str [69], Str [70], Str [71], Str [72], Str [73], Str [74]]" by simp
  have d: "drop 10 
       [Str [65], Str [66], Str [67], Str [68], Str [69], Str [70], Str [71], Str [72], Str [73], Str [74], Str [75]] = [Str [75]]" by simp
  have l: "length 
       [Str [65], Str [66], Str [67], Str [68], Str [69], Str [70], Str [71], Str [72], Str [73], Str [74], Str [75]] = 11" by simp
  from th have "''product_name'' \<in> set (columns demo_catalogue) \<and> 10 < length 
       [Str [65], Str [66], Str [67], Str [68], Str [69], Str [70], Str [71], Str [72], Str [73], Str [74], Str [75]] \<and>
      length 
       [Str [65], Str [66], Str [67], Str [68], Str [69], Str [70], Str [71], Str [72], Str [73], Str [74], Str [75]] \<le> 50 \<longrightarrow>
            select_products keep_default demo_catalogue = Inr (Some (take 10 
       [Str [65], Str [66], Str [67], Str [68], Str [69], Str [70], Str [71], Str [72], Str [73], Str [74], Str [75]])) \<and>
            (\<forall>view. sidebar_filters keep_default demo_catalogue = Inr view \<longrightarrow>
               (\<forall>r \<in> set (rows view). r ''product_name'' \<in> set (take 10 
       [Str [65], Str [66], Str [67], Str [68], Str [69], Str [70], Str [71], Str [72], Str [73], Str [74], Str [75]])) \<and>
               (\<forall>r \<in> set (rows demo_catalogue). r ''product_name'' \<in> set (drop 10 
       [Str [65], Str [66], Str [67], Str [68], Str [69], Str [70], Str [71], Str [72], Str [73], Str [74], Str [75]]) \<longrightarrow>
                                       r \<notin> set (rows view)))"
    by (elim conjE)
  then have sp: "select_products keep_default demo_catalogue = Inr (Some 
       [Str [65], Str [66], Str [67], Str [68], Str [69], Str [70], Str [71], Str [72], Str [73], Str [74]])"
    and vw: "\<And>view. sidebar_filters keep_default demo_catalogue = Inr view \<Longrightarrow>
               (\<forall>r \<in> set (rows view). r ''product_name'' \<in> set 
       [Str [65], Str [66], Str [67], Str [68], Str [69], Str [70], Str [71], Str [72], Str [73], Str [74]]) \<and>
               (\<forall>r \<in> set (rows demo_catalogue). r ''product_name'' \<in> set [Str [75]] \<longrightarrow>
                                       r \<notin> set (rows view))"
    unfolding t d l using c by simp_all
  obtain view where view: "sidebar_filters keep_default demo_catalogue = Inr view"
    using sidebar_demo_catalogue by blast
  have k: "mk_row [(''product_name'', Str [75]), (''region'', Str huabei)] \<in> set (rows demo_catalogue)"
    by (simp add: demo_catalogue_def)
  have "list_all (\<lambda>r. r ''product_name'' \<in> set 
       [Str [65], Str [66], Str [67], Str [68], Str [69], Str [70], Str [71], Str [72], Str [73], Str [74]]) (rows view) \<and>
      mk_row [(''product_name'', Str [75]), (''region'', Str huabei)] \<notin> set (rows view)"
    using vw [OF view] k unfolding list_all_iff by auto
  with view sp show ?thesis
    by (simp only: products_demo_catalogue simp_thms) blast
qed


end
